theory Spec2Isabelle
  imports Main "HOL-Library.Sublist" "HOL-Library.Log_Nat" "HOL-Library.Word"
begin

section \<open>The HTAP dashboard services: simulator, live query client, insight client\<close>

text \<open>
  The three service modules of the dashboard (\<open>services/tidbSimulator\<close>,
  \<open>services/tidbApiService\<close>, \<open>services/geminiService\<close>) and the types of \<open>types.ts\<close>,
  embedded as HOL functions. Everything the TypeScript takes from its surroundings is an
  explicit argument: the values \<open>Math.random()\<close> returns, the clock, the HTTP transport,
  the generative-AI transport, \<open>JSON.parse\<close> and the case mapping of \<open>toUpperCase\<close>. A
  \<open>throw\<close> or a rejected promise is the \<open>Inl\<close> side of a sum.
\<close>

subsection \<open>Strings\<close>

text \<open>
  A JavaScript string is a sequence of 16-bit code units. \<open>utf16\<close> gives the code units
  of a literal of the source: every character of such a literal is below 256 and is one
  code unit of the same value.
\<close>

type_synonym code_unit = "16 word"

type_synonym jsstring = "code_unit list"

definition utf16 :: "string \<Rightarrow> jsstring" where
  "utf16 s = map (\<lambda>c. of_nat (of_char c)) s"

text \<open>
  \<open>s.includes(needle)\<close>: some position of \<open>s\<close>, the end included, starts an occurrence of
  \<open>needle\<close>. The search compares code units and tries the positions from left to right.
\<close>

fun includes_str :: "jsstring \<Rightarrow> jsstring \<Rightarrow> bool" where
  "includes_str [] needle = (needle = [])"
| "includes_str (c # cs) needle = (prefix needle (c # cs) \<or> includes_str cs needle)"

text \<open>
  \<open>String.prototype.toUpperCase\<close> follows the case mappings of the Unicode standard, which
  the engine carries as tables: one character may become several (the sharp s becomes
  \<open>SS\<close>), and characters outside ASCII may become ASCII letters. The function is therefore
  taken from the runtime (the field \<open>toUpperCase\<close> of \<open>js_runtime\<close> below), and the
  properties hold for whatever it computes. On ASCII text the standard fixes the result:
  the letters \<open>a\<close> to \<open>z\<close> become \<open>A\<close> to \<open>Z\<close> and every other character stays.
\<close>

definition ascii_upper_unit :: "code_unit \<Rightarrow> code_unit" where
  "ascii_upper_unit u = (if 0x61 \<le> u \<and> u \<le> 0x7A then u - 0x20 else u)"

definition is_ascii :: "jsstring \<Rightarrow> bool" where
  "is_ascii s = list_all (\<lambda>u. u < 0x80) s"

subsection \<open>Numbers: IEEE 754 binary64 with round-to-nearest, ties-to-even\<close>

text \<open>
  A JavaScript number is a double. The model keeps the rational value of a finite double
  and rounds the exact result of every \<open>+\<close>, \<open>-\<close> and \<open>*\<close> to the nearest double, ties
  to the even significand, as the hardware does. \<open>binade x\<close> is the exponent \<open>e\<close> with
  \<open>2^e \<le> |x| < 2^(e+1)\<close>; doubles in that binade are the multiples of \<open>2^(e-52)\<close>, and
  below \<open>2^-1022\<close> (the subnormal range) the multiples of \<open>2^-1074\<close>. Overflow to
  \<open>Infinity\<close> (results of \<open>2^1024\<close> and more) is not modelled: every number this program
  computes is far below it.
\<close>

type_synonym number = rat

definition binade :: "rat \<Rightarrow> int" where
  "binade x =
     (let (p, q) = quotient_of \<bar>x\<bar>; e = bitlen p - bitlen q
      in if 2 powi e \<le> \<bar>x\<bar> then e else e - 1)"

definition ulp_exponent :: "rat \<Rightarrow> int" where
  "ulp_exponent x = max (binade x) (- 1022) - 52"

definition round_half_even :: "rat \<Rightarrow> int" where
  "round_half_even y =
     (let f = \<lfloor>y\<rfloor>; d = y - of_int f
      in if d < 1 / 2 then f
         else if 1 / 2 < d then f + 1
         else if even f then f else f + 1)"

definition ulp :: "rat \<Rightarrow> rat" where
  "ulp x = 2 powi ulp_exponent x"

definition fl :: "rat \<Rightarrow> number" where
  "fl x = (if x = 0 then 0 else of_int (round_half_even (x / ulp x)) * ulp x)"

definition is_double :: "rat \<Rightarrow> bool" where
  "is_double x = (fl x = x)"

definition fadd :: "number \<Rightarrow> number \<Rightarrow> number" where
  "fadd x y = fl (x + y)"

definition fsub :: "number \<Rightarrow> number \<Rightarrow> number" where
  "fsub x y = fl (x - y)"

definition fmul :: "number \<Rightarrow> number \<Rightarrow> number" where
  "fmul x y = fl (x * y)"

text \<open>
  \<open>Math.random()\<close> returns a double that is at least 0 and less than 1; \<open>rand\<close> is the
  sequence of the values it returns.
\<close>

definition random_source :: "(nat \<Rightarrow> number) \<Rightarrow> bool" where
  "random_source rand = (\<forall>n. is_double (rand n) \<and> 0 \<le> rand n \<and> rand n < 1)"

subsection \<open>JavaScript values, exceptions, truthiness and property reads\<close>

text \<open>
  Rows, parsed JSON and the objects the services return are untyped at run time
  (\<open>any\<close> in \<open>types.ts\<close>), so they are values of one datatype. An object is the list of its
  own properties in insertion order; a read takes the first entry of a key. Numbers in
  values are finite doubles.
\<close>

datatype jsval =
    JUndefined
  | JNull
  | JBool bool
  | JNum number
  | JStr jsstring
  | JArr "jsval list"
  | JObj "(jsstring \<times> jsval) list"

datatype js_error =
    Error jsstring
  | TypeError jsstring
  | SyntaxError jsstring
  | DOMException jsstring

fun message :: "js_error \<Rightarrow> jsstring" where
  "message (Error m) = m"
| "message (TypeError m) = m"
| "message (SyntaxError m) = m"
| "message (DOMException m) = m"

text \<open>\<open>await\<close> and sequencing of steps that may throw: the first exception ends the rest.\<close>

definition try_bind :: "js_error + 'a \<Rightarrow> ('a \<Rightarrow> js_error + 'b) \<Rightarrow> js_error + 'b" where
  "try_bind m f = (case m of Inl e \<Rightarrow> Inl e | Inr x \<Rightarrow> f x)"

text \<open>The falsy values are \<open>undefined\<close>, \<open>null\<close>, \<open>false\<close>, \<open>0\<close> and the empty string.\<close>

fun truthy :: "jsval \<Rightarrow> bool" where
  "truthy JUndefined = False"
| "truthy JNull = False"
| "truthy (JBool b) = b"
| "truthy (JNum n) = (n \<noteq> 0)"
| "truthy (JStr s) = (s \<noteq> [])"
| "truthy (JArr xs) = True"
| "truthy (JObj kvs) = True"

text \<open>
  \<open>v.k\<close> for the property names this program reads (\<open>message\<close>, \<open>result\<close>, \<open>columns\<close>,
  \<open>rows\<close>, \<open>name\<close>): none of them is defined on a built-in prototype, so only an object's
  own property yields a value, every other non-null value yields \<open>undefined\<close>, and a read on
  \<open>undefined\<close> or \<open>null\<close> throws a TypeError. The wording of an engine-raised message is
  implementation-defined; the model fixes one.
\<close>

fun get_prop :: "jsval \<Rightarrow> jsstring \<Rightarrow> js_error + jsval" where
  "get_prop JUndefined k =
     Inl (TypeError (utf16 ''Cannot read properties of undefined (reading '' @ k @ utf16 '')''))"
| "get_prop JNull k =
     Inl (TypeError (utf16 ''Cannot read properties of null (reading '' @ k @ utf16 '')''))"
| "get_prop (JObj kvs) k = Inr (case map_of kvs k of Some x \<Rightarrow> x | None \<Rightarrow> JUndefined)"
| "get_prop v k = Inr JUndefined"

text \<open>
  Four things are taken from the runtime: \<open>toUpperCase\<close> (see above), the decimal text
  of a number, the string conversion of an array or object (which may throw), and the
  wording of the exception with which \<open>btoa\<close> rejects its argument, which differs from
  one browser to the next.
\<close>

record js_runtime =
  toUpperCase :: "jsstring \<Rightarrow> jsstring"
  number_toString :: "number \<Rightarrow> jsstring"
  object_toString :: "jsval \<Rightarrow> js_error + jsstring"
  btoa_message :: jsstring

text \<open>What the standard fixes of \<open>toUpperCase\<close> on ASCII text.\<close>

definition upper_on_ascii :: "js_runtime \<Rightarrow> bool" where
  "upper_on_ascii rt = (\<forall>s. is_ascii s \<longrightarrow> toUpperCase rt s = map ascii_upper_unit s)"

fun ToString :: "js_runtime \<Rightarrow> jsval \<Rightarrow> js_error + jsstring" where
  "ToString rt JUndefined = Inr (utf16 ''undefined'')"
| "ToString rt JNull = Inr (utf16 ''null'')"
| "ToString rt (JBool b) = Inr (if b then utf16 ''true'' else utf16 ''false'')"
| "ToString rt (JNum n) = Inr (number_toString rt n)"
| "ToString rt (JStr s) = Inr s"
| "ToString rt v = object_toString rt v"

text \<open>\<open>Math.floor\<close>, and \<open>x.toFixed(2)\<close> for \<open>|x| < 10^21\<close>: the nearest multiple of
  \<open>1/100\<close> to the exact value, the larger one at a tie.\<close>

definition Math_floor :: "number \<Rightarrow> number" where
  "Math_floor x = of_int \<lfloor>x\<rfloor>"

definition digit_char :: "nat \<Rightarrow> code_unit" where
  "digit_char d = utf16 ''0123456789'' ! d"

function dec_digits :: "nat \<Rightarrow> jsstring" where
  "dec_digits n =
     (if n < 10 then [digit_char n] else dec_digits (n div 10) @ [digit_char (n mod 10)])"
  by pat_completeness auto
termination
  by (relation "measure (\<lambda>n. n)") auto

declare dec_digits.simps [simp del]

definition toFixed2 :: "number \<Rightarrow> jsstring" where
  "toFixed2 x =
     (let n = nat \<lfloor>\<bar>x\<bar> * 100 + 1 / 2\<rfloor>;
          body = dec_digits (n div 100) @ utf16 ''.'' @
                 [digit_char (n mod 100 div 10), digit_char (n mod 10)]
      in if x < 0 then utf16 ''-'' @ body else body)"

subsection \<open>The types of \<open>types.ts\<close>\<close>

datatype engine = TiKV | TiFlash

record MetricPoint =
  time :: jsstring
  oltp :: number
  olap :: number

record HTAPStatus =
  tikvRegionCount :: number
  tiflashReplicaCount :: number
  syncLagMs :: number
  qpsOltp :: number
  qpsOlap :: number

text \<open>
  \<open>columns\<close> and \<open>rows\<close> are declared \<open>string[]\<close> and \<open>any[]\<close>; at run time the live
  client stores whatever the response holds there, so \<open>columns\<close> is a list of values
  (the result of \<open>Array.prototype.map\<close>) and \<open>rows\<close> a value. The optional \<open>error\<close> is
  \<open>None\<close> when the property is absent.
\<close>

record QueryResult =
  columns :: "jsval list"
  rows :: jsval
  executionTimeMs :: number
  engine :: engine
  isMPP :: bool
  sql :: jsstring
  error :: "jsstring option"

record TiDBConfig =
  endpoint :: jsstring
  publicKey :: jsstring
  privateKey :: jsstring
  isLive :: bool
  host :: "jsstring option"
  port :: "number option"
  user :: "jsstring option"

subsection \<open>The simulator (\<open>services/tidbSimulator\<close>)\<close>

text \<open>
  \<open>Math.random()\<close> is the sequence \<open>rand\<close> of the values it returns, read at a cursor that
  each call advances; a function that draws returns the new cursor. The clock is an
  argument as well: \<open>now\<close> is \<open>new Date().getTime()\<close> in milliseconds (an integer below
  \<open>2^53\<close>, so the subtraction is exact), \<open>fmt\<close> is \<open>toLocaleTimeString\<close> with the options
  of the source, and \<open>now_iso i\<close> is \<open>new Date().toISOString()\<close> as row \<open>i\<close> reads it.
\<close>

text \<open>The point pushed in the iteration with loop variable \<open>i\<close>, drawing at cursor \<open>k\<close>.\<close>

definition metric_point ::
  "(nat \<Rightarrow> number) \<Rightarrow> (int \<Rightarrow> jsstring) \<Rightarrow> int \<Rightarrow> int \<Rightarrow> nat \<Rightarrow> MetricPoint" where
  "metric_point rand fmt now i k =
     \<lparr>time = fmt (now - i * 1000),
      oltp = fadd 800 (fmul (rand k) 400),
      olap = fadd 10 (fmul (rand (k + 1)) 5)\<rparr>"

text \<open>The loop \<open>for (let i = 10; i >= 0; i--)\<close>, from the state at its test.\<close>

function perf_loop ::
  "(nat \<Rightarrow> number) \<Rightarrow> (int \<Rightarrow> jsstring) \<Rightarrow> int \<Rightarrow> int \<Rightarrow> nat \<Rightarrow> MetricPoint list
     \<Rightarrow> MetricPoint list \<times> nat" where
  "perf_loop rand fmt now i k data =
     (if 0 \<le> i
      then perf_loop rand fmt now (i - 1) (k + 2) (data @ [metric_point rand fmt now i k])
      else (data, k))"
  by pat_completeness auto
termination
  by (relation "measure (\<lambda>(rand, fmt, now, i, k, data). nat (i + 1))") auto

declare perf_loop.simps [simp del]

definition generateRealtimePerformance ::
  "(nat \<Rightarrow> number) \<Rightarrow> (int \<Rightarrow> jsstring) \<Rightarrow> int \<Rightarrow> nat \<Rightarrow> MetricPoint list \<times> nat" where
  "generateRealtimePerformance rand fmt now k = perf_loop rand fmt now 10 k []"

definition getHTAPStatus :: "(nat \<Rightarrow> number) \<Rightarrow> nat \<Rightarrow> HTAPStatus \<times> nat" where
  "getHTAPStatus rand k =
     (\<lparr>tikvRegionCount = 1450,
       tiflashReplicaCount = 2,
       syncLagMs = fadd 12 (fmul (rand k) 50),
       qpsOltp = 1250,
       qpsOlap = 15\<rparr>, k + 1)"

text \<open>The classification of \<open>runQuery\<close>, in the order the source tests the keywords.\<close>

definition runQuery_isAnalytical :: "js_runtime \<Rightarrow> jsstring \<Rightarrow> bool" where
  "runQuery_isAnalytical rt sqlText =
     (let upperSql = toUpperCase rt sqlText
      in includes_str upperSql (utf16 ''GROUP BY'') \<or> includes_str upperSql (utf16 ''SUM('') \<or>
         includes_str upperSql (utf16 ''JOIN'') \<or> includes_str upperSql (utf16 ''COUNT(''))"

text \<open>\<open>xs[i]\<close> on an array literal: \<open>undefined\<close> out of range.\<close>

definition js_index :: "jsval list \<Rightarrow> nat \<Rightarrow> jsval" where
  "js_index xs i = (if i < length xs then xs ! i else JUndefined)"

text \<open>The callback of \<open>Array.from({length}).map\<close>: row \<open>i\<close>, and the cursor after its draws.\<close>

definition make_row ::
  "bool \<Rightarrow> (nat \<Rightarrow> number) \<Rightarrow> (nat \<Rightarrow> jsstring) \<Rightarrow> nat \<Rightarrow> nat \<Rightarrow> jsval \<times> nat" where
  "make_row isAnalytical rand now_iso i k =
     (if isAnalytical
      then (JObj [(utf16 ''category'',
                     js_index [JStr (utf16 ''Electronics''), JStr (utf16 ''Home''), JStr (utf16 ''Apparel''),
                               JStr (utf16 ''Books''), JStr (utf16 ''Toys'')] i),
                  (utf16 ''total_sales'', JNum (Math_floor (fmul (rand k) 100000))),
                  (utf16 ''avg_price'', JStr (toFixed2 (fmul (rand (k + 1)) 200))),
                  (utf16 ''order_count'', JNum (Math_floor (fmul (rand (k + 2)) 500)))],
            k + 3)
      else (JObj [(utf16 ''id'', JNum (fadd 1000 (of_nat i))),
                  (utf16 ''user_id'', JNum (fadd 500 (of_nat i))),
                  (utf16 ''amount'', JStr (toFixed2 (fmul (rand k) 1000))),
                  (utf16 ''status'', JStr (utf16 ''completed'')),
                  (utf16 ''created_at'', JStr (now_iso i))],
            k + 1))"

function rows_from ::
  "bool \<Rightarrow> (nat \<Rightarrow> number) \<Rightarrow> (nat \<Rightarrow> jsstring) \<Rightarrow> nat \<Rightarrow> nat \<Rightarrow> nat \<Rightarrow> jsval list \<times> nat" where
  "rows_from isAnalytical rand now_iso n i k =
     (if i < n
      then let (row, k') = make_row isAnalytical rand now_iso i k;
               (rest, k'') = rows_from isAnalytical rand now_iso n (Suc i) k'
           in (row # rest, k'')
      else ([], k))"
  by pat_completeness auto
termination
  by (relation "measure (\<lambda>(isAnalytical, rand, now_iso, n, i, k). n - i)") auto

declare rows_from.simps [simp del]

text \<open>
  \<open>runQuery\<close>: the promise always resolves. The run records the delay passed to
  \<open>setTimeout\<close>, the resolved result and the cursor after the last draw.
\<close>

record simulation =
  delayMs :: number
  resolved :: QueryResult
  cursor :: nat

definition runQuery ::
  "js_runtime \<Rightarrow> (nat \<Rightarrow> number) \<Rightarrow> (nat \<Rightarrow> jsstring) \<Rightarrow> nat \<Rightarrow> jsstring
     \<Rightarrow> simulation" where
  "runQuery rt rand now_iso k sqlText =
     (let delay = fadd 300 (fmul (rand k) 500);
          isAnalytical = runQuery_isAnalytical rt sqlText;
          cols = (if isAnalytical
                  then [JStr (utf16 ''category''), JStr (utf16 ''total_sales''), JStr (utf16 ''avg_price''),
                        JStr (utf16 ''order_count'')]
                  else [JStr (utf16 ''id''), JStr (utf16 ''user_id''), JStr (utf16 ''amount''), JStr (utf16 ''status''),
                        JStr (utf16 ''created_at'')]);
          (rs, k') = rows_from isAnalytical rand now_iso (if isAnalytical then 5 else 10) 0 (k + 1)
      in \<lparr>delayMs = delay,
          resolved =
            \<lparr>columns = cols,
             rows = JArr rs,
             executionTimeMs = (if isAnalytical then fadd 45 (fmul (rand k') 20)
                                else fadd 2 (fmul (rand k') 5)),
             engine = (if isAnalytical then TiFlash else TiKV),
             isMPP = isAnalytical,
             sql = sqlText,
             error = None\<rparr>,
          cursor = k' + 1\<rparr>)"

subsection \<open>The live query client (\<open>services/tidbApiService\<close>)\<close>

text \<open>
  The transport is the argument \<open>fetch\<close>: it throws (the promise rejects) or yields a
  response, of which the client reads \<open>ok\<close> and awaits \<open>json()\<close> once. A request is kept
  before its encodings: the pair of keys that \<open>btoa\<close> turns into the Basic authorization
  header, and the statement that \<open>JSON.stringify\<close> puts into the body. \<open>btoa\<close> throws
  when its argument, the two keys joined by a colon, has a code unit above 255; the
  argument is evaluated while the options of \<open>fetch\<close> are built, so \<open>fetch\<close> is not
  called then.
\<close>

definition btoa_input :: "TiDBConfig \<Rightarrow> jsstring" where
  "btoa_input config = publicKey config @ utf16 '':'' @ privateKey config"

definition latin1 :: "jsstring \<Rightarrow> bool" where
  "latin1 s = list_all (\<lambda>u. u \<le> 0xFF) s"

record http_request =
  url :: jsstring
  http_method :: jsstring
  content_type :: jsstring
  basic_auth :: "jsstring \<times> jsstring"
  body_sql :: jsstring

record http_response =
  ok :: bool
  json :: "js_error + jsval"

text \<open>The classification of \<open>executeLiveQuery\<close>.\<close>

definition executeLiveQuery_isAnalytical :: "js_runtime \<Rightarrow> jsstring \<Rightarrow> bool" where
  "executeLiveQuery_isAnalytical rt sqlText =
     (includes_str (toUpperCase rt sqlText) (utf16 ''GROUP BY'') \<or>
      includes_str (toUpperCase rt sqlText) (utf16 ''JOIN''))"

text \<open>\<open>columns.map((c) => c.name)\<close>: only an array has a callable \<open>map\<close>.\<close>

fun map_name :: "jsval list \<Rightarrow> js_error + jsval list" where
  "map_name [] = Inr []"
| "map_name (c # cs) =
     try_bind (get_prop c (utf16 ''name'')) (\<lambda>n. try_bind (map_name cs) (\<lambda>ns. Inr (n # ns)))"

fun columns_map :: "jsval \<Rightarrow> js_error + jsval list" where
  "columns_map (JArr cs) = map_name cs"
| "columns_map JUndefined = try_bind (get_prop JUndefined (utf16 ''map'')) (\<lambda>f. Inr [])"
| "columns_map JNull = try_bind (get_prop JNull (utf16 ''map'')) (\<lambda>f. Inr [])"
| "columns_map v = Inl (TypeError (utf16 ''data.result.columns.map is not a function''))"

definition the_request :: "TiDBConfig \<Rightarrow> jsstring \<Rightarrow> http_request" where
  "the_request config sqlText =
     \<lparr>url = endpoint config,
      http_method = utf16 ''POST'',
      content_type = utf16 ''application/json'',
      basic_auth = (publicKey config, privateKey config),
      body_sql = sqlText\<rparr>"

text \<open>
  The body of the \<open>try\<close> block: \<open>Inl\<close> is the exception the \<open>catch\<close> receives.
  \<open>startTime\<close> and \<open>endTime\<close> are the two readings of \<open>performance.now()\<close>.
\<close>

definition try_block ::
  "js_runtime \<Rightarrow> (http_request \<Rightarrow> js_error + http_response) \<Rightarrow> TiDBConfig \<Rightarrow> jsstring
     \<Rightarrow> number \<Rightarrow> number \<Rightarrow> js_error + QueryResult" where
  "try_block rt fetch config sqlText startTime endTime =
     (if \<not> latin1 (btoa_input config)
      then Inl (DOMException (btoa_message rt))
      else
     try_bind (fetch (the_request config sqlText)) (\<lambda>response.
       if \<not> ok response
       then try_bind (json response) (\<lambda>errData.
              try_bind (get_prop errData (utf16 ''message'')) (\<lambda>m.
                try_bind (ToString rt (if truthy m then m else JStr (utf16 ''Query execution failed'')))
                  (\<lambda>msg. Inl (Error msg))))
       else try_bind (json response) (\<lambda>data.
              try_bind (get_prop data (utf16 ''result'')) (\<lambda>result.
                try_bind (get_prop result (utf16 ''columns'')) (\<lambda>cs.
                  try_bind (columns_map cs) (\<lambda>cols.
                    try_bind (get_prop data (utf16 ''result'')) (\<lambda>result'.
                      try_bind (get_prop result' (utf16 ''rows'')) (\<lambda>rs.
                        let isAnalytical = executeLiveQuery_isAnalytical rt sqlText
                        in Inr \<lparr>columns = cols,
                                rows = rs,
                                executionTimeMs = fsub endTime startTime,
                                engine = (if isAnalytical then TiFlash else TiKV),
                                isMPP = isAnalytical,
                                sql = sqlText,
                                error = None\<rparr>))))))))"

text \<open>The object the \<open>catch\<close> block returns for the exception it receives.\<close>

definition catch_block :: "jsstring \<Rightarrow> js_error \<Rightarrow> QueryResult" where
  "catch_block sqlText err =
     \<lparr>columns = [],
      rows = JArr [],
      executionTimeMs = 0,
      engine = TiKV,
      isMPP = False,
      sql = sqlText,
      error = Some (message err)\<rparr>"

text \<open>
  A call of \<open>executeLiveQuery\<close>: the requests it issued, and how the promise settled
  (\<open>Inl\<close>: rejected with the exception, \<open>Inr\<close>: resolved with the result).
\<close>

record execution =
  issued :: "http_request list"
  settled :: "js_error + QueryResult"

definition executeLiveQuery ::
  "js_runtime \<Rightarrow> (http_request \<Rightarrow> js_error + http_response) \<Rightarrow> TiDBConfig \<Rightarrow> jsstring
     \<Rightarrow> number \<Rightarrow> number \<Rightarrow> execution" where
  "executeLiveQuery rt fetch config sqlText startTime endTime =
     (if endpoint config = [] \<or> publicKey config = [] \<or> privateKey config = []
      then \<lparr>issued = [], settled = Inl (Error (utf16 ''Missing connection credentials''))\<rparr>
      else \<lparr>issued = (if latin1 (btoa_input config) then [the_request config sqlText] else []),
            settled =
              (case try_block rt fetch config sqlText startTime endTime of
                 Inr r \<Rightarrow> Inr r
               | Inl err \<Rightarrow> Inr (catch_block sqlText err))\<rparr>)"

text \<open>
  \<open>handleRunQuery\<close> of \<open>App.tsx\<close>, the caller of both services: the result it hands to
  \<open>setQueryResult\<close>. Its \<open>catch\<close> turns a rejected promise into an error result.
\<close>

definition handleRunQuery ::
  "js_runtime \<Rightarrow> (http_request \<Rightarrow> js_error + http_response) \<Rightarrow> (nat \<Rightarrow> number)
     \<Rightarrow> (nat \<Rightarrow> jsstring) \<Rightarrow> nat \<Rightarrow> TiDBConfig \<Rightarrow> jsstring \<Rightarrow> number \<Rightarrow> number \<Rightarrow> QueryResult" where
  "handleRunQuery rt fetch rand now_iso k config sqlText startTime endTime =
     (if isLive config
      then (case settled (executeLiveQuery rt fetch config sqlText startTime endTime) of
              Inr r \<Rightarrow> r
            | Inl e \<Rightarrow>
                \<lparr>columns = [], rows = JArr [], executionTimeMs = 0, engine = TiKV,
                 isMPP = False, sql = sqlText, error = Some (message e)\<rparr>)
      else resolved (runQuery rt rand now_iso k sqlText))"

subsection \<open>The insight client (\<open>services/geminiService\<close>)\<close>

definition newline :: jsstring where
  "newline = [0x0A]"

definition prompt_of :: "js_runtime \<Rightarrow> HTAPStatus \<Rightarrow> jsstring" where
  "prompt_of rt status = concat
     [newline,
      utf16 ''      Act as a senior TiDB Database Administrator. '',
      utf16 ''Analyze the following HTAP cluster metrics:'', newline,
      utf16 ''      - OLTP QPS: '', number_toString rt (qpsOltp status), newline,
      utf16 ''      - OLAP QPS: '', number_toString rt (qpsOlap status), newline,
      utf16 ''      - TiFlash Sync Lag: '', number_toString rt (syncLagMs status), utf16 ''ms'', newline,
      utf16 ''      - TiKV Regions: '', number_toString rt (tikvRegionCount status), newline,
      utf16 ''      - TiFlash Replicas: '', number_toString rt (tiflashReplicaCount status), newline,
      newline,
      utf16 ''      Provide a brief architectural insight about this hybrid workload. '', newline,
      utf16 ''      Identify if TiFlash is keeping up with TiKV and if the analytical queries '',
      utf16 ''are impacting transactional throughput.'', newline,
      utf16 ''    '']"

text \<open>The object literal of the \<open>catch\<close> block.\<close>

definition fallback_insight :: jsval where
  "fallback_insight =
     JObj [(utf16 ''title'', JStr (utf16 ''Monitoring Active'')),
           (utf16 ''content'',
              JStr (utf16 ''System metrics are within normal operating parameters. '' @
                    utf16 ''HTAP isolation is maintained.'')),
           (utf16 ''recommendation'', JStr (utf16 ''Continue standard monitoring.'')),
           (utf16 ''severity'', JStr (utf16 ''low''))]"

text \<open>
  \<open>generateContent\<close> is the call \<open>ai.models.generateContent\<close> with the model name and
  response schema of the source, as a function of the prompt: it throws, or yields the
  \<open>text\<close> of the response (\<open>None\<close>: \<open>undefined\<close>). \<open>JSON_parse\<close> is \<open>JSON.parse\<close>. The
  result of \<open>getAIInsights\<close> is the parsed value as it is: \<open>result as AIInsight\<close> checks
  nothing at run time. The \<open>console.error\<close> of the \<open>catch\<close> block does not change the
  result and is left out.
\<close>

definition getAIInsights ::
  "js_runtime \<Rightarrow> (jsstring \<Rightarrow> js_error + jsstring option) \<Rightarrow> (jsstring \<Rightarrow> js_error + jsval)
     \<Rightarrow> HTAPStatus \<Rightarrow> js_error + jsval" where
  "getAIInsights rt generateContent JSON_parse status =
     (case try_bind (generateContent (prompt_of rt status)) (\<lambda>response_text.
             JSON_parse (case response_text of
                           None \<Rightarrow> utf16 ''{}''
                         | Some t \<Rightarrow> if t \<noteq> [] then t else utf16 ''{}''))
      of Inr result \<Rightarrow> Inr result
       | Inl err \<Rightarrow> Inr fallback_insight)"

subsection \<open>Test doubles\<close>

text \<open>
  Concrete surroundings for the examples. A runtime that uppercases the letters \<open>a\<close> to
  \<open>z\<close> and nothing else (\<open>toUpperCase\<close> as it is on ASCII text), prints a non-negative
  integer in decimal and prints an object as \<open>[object Object]\<close>. A configuration with
  all three credentials, and transports that answer with a one-column result, with a
  non-2xx error body (its message \<open>Unauthorized\<close>, or the empty string), or not at all.
  A random source that always returns one half, and one that always returns
  \<open>1 - 2^-52\<close>, the largest value of a generator that fills the 52 fraction bits of a
  double (a generator with 53 random bits returns it as well). A time formatter that
  prints whole seconds. Generative transports that fail, answer without a text, with the
  empty text, with \<open>{}\<close>, or with prose. The parser double knows the one text the
  insight client itself supplies, \<open>{}\<close> (the empty object), and rejects the rest.
\<close>

definition test_runtime :: js_runtime where
  "test_runtime =
     \<lparr>toUpperCase = map ascii_upper_unit,
      number_toString = (\<lambda>n. dec_digits (nat \<lfloor>n\<rfloor>)),
      object_toString = (\<lambda>v. Inr (utf16 ''[object Object]'')),
      btoa_message = utf16 ''The string to be encoded contains characters outside of the Latin1 range.''\<rparr>"

text \<open>
  A second runtime, for text made of ASCII and the sharp s (code unit \<open>0xDF\<close>), which
  \<open>toUpperCase\<close> turns into \<open>SS\<close>.
\<close>

definition upper_unit_sharp_s :: "code_unit \<Rightarrow> jsstring" where
  "upper_unit_sharp_s u = (if u = 0xDF then utf16 ''SS'' else [ascii_upper_unit u])"

definition sharp_s_runtime :: js_runtime where
  "sharp_s_runtime =
     \<lparr>toUpperCase = (\<lambda>s. concat (map upper_unit_sharp_s s)),
      number_toString = (\<lambda>n. dec_digits (nat \<lfloor>n\<rfloor>)),
      object_toString = (\<lambda>v. Inr (utf16 ''[object Object]'')),
      btoa_message = utf16 ''The string to be encoded contains characters outside of the Latin1 range.''\<rparr>"

definition test_config :: TiDBConfig where
  "test_config =
     \<lparr>endpoint = utf16 ''https://gateway.example/query'',
      publicKey = utf16 ''PUBLIC'',
      privateKey = utf16 ''PRIVATE'',
      isLive = True,
      host = None,
      port = None,
      user = None\<rparr>"

definition fetch_rows :: "http_request \<Rightarrow> js_error + http_response" where
  "fetch_rows req =
     Inr \<lparr>ok = True,
          json = Inr (JObj [(utf16 ''result'',
                   JObj [(utf16 ''columns'', JArr [JObj [(utf16 ''name'', JStr (utf16 ''total''))]]),
                         (utf16 ''rows'', JArr [JObj [(utf16 ''total'', JNum 42)]])])])\<rparr>"



definition fetch_offline :: "http_request \<Rightarrow> js_error + http_response" where
  "fetch_offline req = Inl (TypeError (utf16 ''Failed to fetch''))"

definition random_half :: "nat \<Rightarrow> number" where
  "random_half n = 1 / 2"

definition random_high :: "nat \<Rightarrow> number" where
  "random_high n = 1 - 1 / 2 ^ 52"

definition seconds_text :: "int \<Rightarrow> jsstring" where
  "seconds_text t = dec_digits (nat (t div 1000))"

definition test_status :: HTAPStatus where
  "test_status =
     \<lparr>tikvRegionCount = 1450, tiflashReplicaCount = 2, syncLagMs = 12,
      qpsOltp = 1250, qpsOlap = 15\<rparr>"

definition generate_offline :: "jsstring \<Rightarrow> js_error + jsstring option" where
  "generate_offline prompt = Inl (Error (utf16 ''fetch failed''))"

definition generate_absent :: "jsstring \<Rightarrow> js_error + jsstring option" where
  "generate_absent prompt = Inr None"

definition generate_empty :: "jsstring \<Rightarrow> js_error + jsstring option" where
  "generate_empty prompt = Inr (Some [])"

definition generate_braces :: "jsstring \<Rightarrow> js_error + jsstring option" where
  "generate_braces prompt = Inr (Some (utf16 ''{}''))"

definition generate_prose :: "jsstring \<Rightarrow> js_error + jsstring option" where
  "generate_prose prompt = Inr (Some (utf16 ''The cluster is healthy.''))"

definition parse_empty_object :: "jsstring \<Rightarrow> js_error + jsval" where
  "parse_empty_object s =
     (if s = utf16 ''{}'' then Inr (JObj []) else Inl (SyntaxError (utf16 ''Unexpected token'')))"

subsection \<open>The classification rule of the specification\<close>

text \<open>
  The rule as the specification words it, to be compared with the two classifications of
  the source: uppercase the statement (with the runtime's \<open>toUpperCase\<close>); it is
  analytical if and only if the uppercased text contains one of the four keywords as a
  substring.
\<close>

definition spec_keywords :: "jsstring list" where
  "spec_keywords = [utf16 ''GROUP BY'', utf16 ''JOIN'', utf16 ''SUM('', utf16 ''COUNT('']"

definition classify_spec :: "js_runtime \<Rightarrow> jsstring \<Rightarrow> engine" where
  "classify_spec rt sqlText =
     (if list_ex (\<lambda>kw. sublist kw (toUpperCase rt sqlText)) spec_keywords then TiFlash else TiKV)"

section \<open>Properties\<close>

subsection \<open>Strings\<close>

text \<open>
  A character of a literal is one code unit, different characters are different code
  units, and every code unit of a literal is at most 255.
\<close>

lemma of_char_bound: "(of_char c :: nat) < 256"
  by simp

lemma char_unit_unat: "unat (of_nat (of_char c) :: code_unit) = of_char c"
proof -
  have "(of_char c :: nat) < 65536" using of_char_bound[of c] by linarith
  then show ?thesis by (simp add: unat_of_nat)
qed

lemma char_unit_inj: "(of_nat (of_char c) :: code_unit) = of_nat (of_char d) \<longleftrightarrow> c = d"
proof
  assume "(of_nat (of_char c) :: code_unit) = of_nat (of_char d)"
  then have "unat (of_nat (of_char c) :: code_unit) = unat (of_nat (of_char d) :: code_unit)"
    by simp
  then have "(of_char c :: nat) = of_char d" by (simp only: char_unit_unat)
  then show "c = d" by simp
qed simp

lemma utf16_Nil [simp]: "utf16 [] = []"
  by (simp add: utf16_def)

lemma utf16_eq_Nil [simp]: "utf16 s = [] \<longleftrightarrow> s = []"
  by (simp add: utf16_def)

lemma utf16_append [simp]: "utf16 (a @ b) = utf16 a @ utf16 b"
  by (simp add: utf16_def)

lemma utf16_inj [simp]: "utf16 a = utf16 b \<longleftrightarrow> a = b"
proof (induction a arbitrary: b)
  case Nil
  then show ?case by (auto simp: utf16_def)
next
  case (Cons c cs)
  then show ?case by (cases b) (auto simp: utf16_def char_unit_inj)
qed

lemma utf16_latin1: "latin1 (utf16 s)"
proof -
  have "(of_nat (of_char c) :: code_unit) \<le> 0xFF" for c
  proof -
    have "(of_char c :: nat) \<le> 255" using of_char_bound[of c] by linarith
    then have "unat (of_nat (of_char c) :: code_unit) \<le> unat (0xFF :: code_unit)"
      by (simp add: char_unit_unat)
    then show ?thesis by (simp only: word_le_nat_alt)
  qed
  then show ?thesis by (simp add: latin1_def utf16_def list_all_iff)
qed

lemma includes_str_sublist: "includes_str s needle \<longleftrightarrow> sublist needle s"
  by (induction s) (auto simp: sublist_Cons_right)

lemma test_runtime_upper: "toUpperCase test_runtime = map ascii_upper_unit"
  by (simp add: test_runtime_def)

lemma test_runtime_on_ascii: "upper_on_ascii test_runtime"
  by (simp add: upper_on_ascii_def test_runtime_upper)

lemmas upper_eval = test_runtime_upper utf16_def ascii_upper_unit_def

subsection \<open>Numbers\<close>

text \<open>\<open>binade\<close> is the exponent of the power of two at or below the magnitude.\<close>

lemma bitlen_powi_bounds:
  assumes "0 < (p::int)"
  shows "(2::rat) powi (bitlen p - 1) \<le> of_int p" "(of_int p :: rat) < 2 powi bitlen p"
proof -
  from assms have b1: "1 \<le> bitlen p"
    using bitlen_eq_zero_iff[of p] bitlen_nonneg[of p] by linarith
  from bitlen_bounds[OF assms] have lo: "2 ^ nat (bitlen p - 1) \<le> p" and hi: "p < 2 ^ nat (bitlen p)"
    by simp_all
  from lo have "(of_int (2 ^ nat (bitlen p - 1)) :: rat) \<le> of_int p"
    by (simp only: of_int_le_iff)
  with b1 show "(2::rat) powi (bitlen p - 1) \<le> of_int p"
    by (simp add: power_int_def)
  from hi have "(of_int p :: rat) < of_int (2 ^ nat (bitlen p))"
    by (simp only: of_int_less_iff)
  with b1 show "(of_int p :: rat) < 2 powi bitlen p"
    by (simp add: power_int_def)
qed

lemma binade_bounds:
  assumes "x \<noteq> 0"
  shows "2 powi binade x \<le> \<bar>x\<bar>" "\<bar>x\<bar> < 2 powi (binade x + 1)"
proof -
  obtain p q where pq: "quotient_of \<bar>x\<bar> = (p, q)"
    by (cases "quotient_of \<bar>x\<bar>")
  have q: "0 < q" using pq by (rule quotient_of_denom_pos)
  have x: "\<bar>x\<bar> = of_int p / of_int q" using pq by (rule quotient_of_div)
  have "0 < \<bar>x\<bar>" using assms by simp
  with x q have p: "0 < p"
    by (simp add: zero_less_divide_iff)
  define e where "e = bitlen p - bitlen q"
  have up: "\<bar>x\<bar> < 2 powi (e + 1)"
  proof -
    have "of_int p / of_int q < (2 powi bitlen p :: rat) / 2 powi (bitlen q - 1)"
      using bitlen_powi_bounds[OF p] bitlen_powi_bounds[OF q] p q
      by (intro frac_less) (auto intro: order_less_imp_le)
    also have "\<dots> = 2 powi (e + 1)"
      by (simp add: e_def power_int_diff [symmetric] algebra_simps)
    finally show ?thesis using x by simp
  qed
  have lo: "2 powi (e - 1) \<le> \<bar>x\<bar>"
  proof -
    have "(2 powi (bitlen p - 1) :: rat) / 2 powi bitlen q \<le> of_int p / of_int q"
      using bitlen_powi_bounds[OF p] bitlen_powi_bounds[OF q] p q
      by (intro frac_le) (auto intro: order_less_imp_le)
    moreover have "(2 powi (bitlen p - 1) :: rat) / 2 powi bitlen q = 2 powi (e - 1)"
      by (simp add: e_def power_int_diff [symmetric] algebra_simps)
    ultimately show ?thesis using x by simp
  qed
  have b: "binade x = (if 2 powi e \<le> \<bar>x\<bar> then e else e - 1)"
    by (simp add: binade_def pq e_def Let_def)
  show "2 powi binade x \<le> \<bar>x\<bar>" using lo by (simp add: b)
  show "\<bar>x\<bar> < 2 powi (binade x + 1)" using up by (auto simp: b not_le)
qed

lemma powi_less_cancel:
  assumes "(2::rat) powi a < 2 powi b"
  shows "a < b"
proof (rule ccontr)
  assume "\<not> a < b"
  then have "b \<le> a" by simp
  then have "(2::rat) powi b \<le> 2 powi a" by (rule power_int_increasing) simp
  with assms show False by simp
qed

lemma binade_unique:
  assumes "2 powi e \<le> \<bar>x\<bar>" "\<bar>x\<bar> < 2 powi (e + 1)"
  shows "binade x = e"
proof -
  have nz: "x \<noteq> 0"
  proof
    assume "x = 0"
    with assms(1) have "(2::rat) powi e \<le> 0" by simp
    moreover have "(0::rat) < 2 powi e" by simp
    ultimately show False by linarith
  qed
  from binade_bounds[OF nz] assms have up: "(2::rat) powi binade x < 2 powi (e + 1)"
    and lo: "(2::rat) powi e < 2 powi (binade x + 1)"
    by linarith+
  have "binade x < e + 1" using up by (rule powi_less_cancel)
  moreover have "e < binade x + 1" using lo by (rule powi_less_cancel)
  ultimately show ?thesis by simp
qed

lemma binade_mono:
  assumes "0 < x" "x \<le> y"
  shows "binade x \<le> binade y"
proof -
  from assms have nz: "x \<noteq> 0" "y \<noteq> 0" by simp_all
  from binade_bounds(1)[OF nz(1)] binade_bounds(2)[OF nz(2)] assms
  have "(2::rat) powi binade x < 2 powi (binade y + 1)" by simp
  then have "binade x < binade y + 1"
    by (rule powi_less_cancel)
  then show ?thesis by simp
qed

text \<open>Rounding to the nearest integer is monotone and fixes the integers.\<close>

lemma round_half_even_of_int: "round_half_even (of_int n) = n"
  by (simp add: round_half_even_def)

lemma round_half_even_range:
  "\<lfloor>y\<rfloor> \<le> round_half_even y" "round_half_even y \<le> \<lfloor>y\<rfloor> + 1"
  by (simp_all add: round_half_even_def Let_def)

lemma round_half_even_mono:
  assumes "a \<le> b"
  shows "round_half_even a \<le> round_half_even b"
proof (cases "\<lfloor>a\<rfloor> = \<lfloor>b\<rfloor>")
  case True
  with assms show ?thesis
    by (auto simp: round_half_even_def Let_def)
next
  case False
  with assms have "\<lfloor>a\<rfloor> + 1 \<le> \<lfloor>b\<rfloor>"
    using floor_mono[OF assms] by linarith
  with round_half_even_range(2)[of a] round_half_even_range(1)[of b] show ?thesis
    by linarith
qed

lemma round_half_even_le:
  assumes "y \<le> of_int n"
  shows "round_half_even y \<le> n"
  using round_half_even_mono[OF assms] by (simp add: round_half_even_of_int)

lemma round_half_even_ge:
  assumes "of_int n \<le> y"
  shows "n \<le> round_half_even y"
  using round_half_even_mono[OF assms] by (simp add: round_half_even_of_int)

lemma ulp_pos: "0 < ulp x"
  by (simp add: ulp_def)

lemma fl_nonneg:
  assumes "0 \<le> x"
  shows "0 \<le> fl x"
proof (cases "x = 0")
  case True
  then show ?thesis by (simp add: fl_def)
next
  case False
  have "of_int 0 \<le> x / ulp x" using assms ulp_pos[of x] by simp
  then have "0 \<le> round_half_even (x / ulp x)" by (rule round_half_even_ge)
  with False ulp_pos[of x] show ?thesis by (simp add: fl_def)
qed

text \<open>
  Rounding a positive number stays between the power of two that opens its binade and
  the one that closes it (in the subnormal range: below \<open>2^-1022\<close>).
\<close>

lemma fl_upper:
  assumes "0 < x"
  shows "fl x \<le> 2 powi (max (binade x) (- 1022) + 1)"
proof -
  let ?e = "max (binade x) (- 1022)"
  have nz: "x \<noteq> 0" using assms by simp
  have u: "ulp x = 2 powi (?e - 52)" by (simp add: ulp_def ulp_exponent_def)
  have "x < 2 powi (binade x + 1)" using binade_bounds(2)[OF nz] assms by simp
  also have "\<dots> \<le> 2 powi (?e + 1)" by (intro power_int_increasing) simp_all
  finally have "x \<le> 2 powi (?e + 1)" by simp
  moreover have "(2::rat) powi (?e + 1) = 2 ^ 53 * 2 powi (?e - 52)"
  proof -
    have "(2::rat) powi (?e + 1) = 2 powi (53 + (?e - 52))" by (simp add: algebra_simps)
    also have "\<dots> = 2 powi 53 * 2 powi (?e - 52)" by (rule power_int_add) simp
    finally show ?thesis by simp
  qed
  ultimately have "x / ulp x \<le> of_int (2 ^ 53)"
    using ulp_pos[of x] by (simp add: u pos_divide_le_eq)
  then have "round_half_even (x / ulp x) \<le> 2 ^ 53" by (rule round_half_even_le)
  then have "(of_int (round_half_even (x / ulp x)) :: rat) \<le> of_int (2 ^ 53)"
    by (simp only: of_int_le_iff)
  then have "of_int (round_half_even (x / ulp x)) * ulp x \<le> of_int (2 ^ 53) * ulp x"
    using ulp_pos[of x] by (intro mult_right_mono) simp_all
  with nz \<open>(2::rat) powi (?e + 1) = 2 ^ 53 * 2 powi (?e - 52)\<close> show ?thesis
    by (simp add: fl_def u)
qed

lemma fl_lower:
  assumes "0 < x" "- 1022 \<le> binade x"
  shows "2 powi binade x \<le> fl x"
proof -
  let ?e = "binade x"
  have nz: "x \<noteq> 0" using assms by simp
  have u: "ulp x = 2 powi (?e - 52)" using assms(2) by (simp add: ulp_def ulp_exponent_def max_def)
  have p: "(2::rat) powi ?e = 2 ^ 52 * 2 powi (?e - 52)"
  proof -
    have "(2::rat) powi ?e = 2 powi (52 + (?e - 52))" by (simp add: algebra_simps)
    also have "\<dots> = 2 powi 52 * 2 powi (?e - 52)" by (rule power_int_add) simp
    finally show ?thesis by simp
  qed
  have "2 powi ?e \<le> x" using binade_bounds(1)[OF nz] assms by simp
  then have "of_int (2 ^ 52) \<le> x / ulp x"
    using ulp_pos[of x] by (simp add: u p pos_le_divide_eq)
  then have "2 ^ 52 \<le> round_half_even (x / ulp x)" by (rule round_half_even_ge)
  then have "(of_int (2 ^ 52) :: rat) \<le> of_int (round_half_even (x / ulp x))"
    by (simp only: of_int_le_iff)
  then have "of_int (2 ^ 52) * ulp x \<le> of_int (round_half_even (x / ulp x)) * ulp x"
    using ulp_pos[of x] by (intro mult_right_mono) simp_all
  with nz p show ?thesis
    by (simp add: fl_def u)
qed

lemma fl_mono:
  assumes "0 \<le> x" "x \<le> y"
  shows "fl x \<le> fl y"
proof (cases "x = 0")
  case True
  with assms fl_nonneg[of y] show ?thesis by (simp add: fl_def)
next
  case False
  with assms have x: "0 < x" and y: "0 < y" by simp_all
  let ?ex = "max (binade x) (- 1022)" and ?ey = "max (binade y) (- 1022)"
  have le: "?ex \<le> ?ey" using binade_mono[OF x assms(2)] by simp
  show ?thesis
  proof (cases "?ex = ?ey")
    case True
    then have u: "ulp x = ulp y" by (simp add: ulp_def ulp_exponent_def)
    have "x / ulp y \<le> y / ulp y" using assms(2) ulp_pos[of y] by (simp add: divide_right_mono)
    then have "round_half_even (x / ulp y) \<le> round_half_even (y / ulp y)"
      by (rule round_half_even_mono)
    then have "(of_int (round_half_even (x / ulp y)) :: rat) \<le> of_int (round_half_even (y / ulp y))"
      by (simp only: of_int_le_iff)
    then have "of_int (round_half_even (x / ulp y)) * ulp y \<le>
        of_int (round_half_even (y / ulp y)) * ulp y"
      using ulp_pos[of y] by (intro mult_right_mono) simp_all
    with x y u show ?thesis by (simp add: fl_def)
  next
    case False
    with le have lt: "?ex < ?ey" by linarith
    then have ey: "- 1022 \<le> binade y" "?ey = binade y" by linarith+
    have "fl x \<le> 2 powi (?ex + 1)" by (rule fl_upper[OF x])
    also have "\<dots> \<le> 2 powi binade y"
    proof (rule power_int_increasing)
      show "?ex + 1 \<le> binade y" using lt ey(2) by linarith
    qed simp
    also have "\<dots> \<le> fl y" by (rule fl_lower[OF y ey(1)])
    finally show ?thesis .
  qed
qed

text \<open>
  The largest double below 1 is \<open>1 - 2^-53\<close>. The constants of the program are doubles,
  and so are the two values the transactional time is compared with.
\<close>

lemma double_below_one:
  assumes "is_double r" "r < 1"
  shows "r \<le> 1 - 1 / 2 ^ 53"
proof (rule ccontr)
  assume "\<not> r \<le> 1 - 1 / 2 ^ 53"
  then have gt: "1 - 1 / 2 ^ 53 < r" by simp
  then have half: "1 / 2 \<le> r" by simp
  then have nz: "r \<noteq> 0" by auto
  have "binade r = - 1"
    using half assms(2) by (intro binade_unique) (simp_all add: power_int_minus)
  then have u: "ulp r = 1 / 2 ^ 53"
    by (simp add: ulp_def ulp_exponent_def power_int_minus field_simps)
  define n where "n = round_half_even (r / ulp r)"
  from assms(1) nz have "of_int n * ulp r = r"
    by (simp add: is_double_def fl_def n_def)
  then have r: "r = of_int n / 2 ^ 53" by (simp add: u)
  from gt have "(2 ^ 53 - 1 :: rat) < of_int n" by (simp add: r field_simps)
  then have "(of_int (2 ^ 53 - 1) :: rat) < of_int n" by simp
  then have lo: "2 ^ 53 - 1 < n" by (simp only: of_int_less_iff)
  from assms(2) have "(of_int n :: rat) < of_int (2 ^ 53)" by (simp add: r field_simps)
  then have "n < 2 ^ 53" by (simp only: of_int_less_iff)
  with lo show False by simp
qed

lemma fl_consts:
  "fl 20 = 20" "fl 45 = 45" "fl 65 = 65" "fl 2 = 2" "fl 5 = 5"
  "fl 7 = 7" "fl 10 = 10" "fl 15 = 15" "fl 400 = 400" "fl 800 = 800" "fl 1200 = 1200"
  by code_simp+

lemma fl_near_five: "fl (5 - 5 / 2 ^ 53) = 5 - 1 / 2 ^ 50"
  by code_simp

lemma fl_near_seven: "fl (7 - 1 / 2 ^ 50) = 7 - 1 / 2 ^ 50"
  by code_simp

lemma scaled_draw_bounds:
  assumes "0 \<le> r" "r < 1" "0 \<le> c" "fl c = c"
  shows "0 \<le> fmul r c" "fmul r c \<le> c"
proof -
  have "0 \<le> r * c" using assms by simp
  then show "0 \<le> fmul r c" unfolding fmul_def by (rule fl_nonneg)
  have "r * c \<le> c" using mult_left_le_one_le[of c r] assms by simp
  with \<open>0 \<le> r * c\<close> have "fl (r * c) \<le> fl c" by (rule fl_mono)
  then show "fmul r c \<le> c" by (simp add: fmul_def assms)
qed

lemma offset_draw_bounds:
  assumes "0 \<le> r" "r < 1" "0 \<le> c" "fl c = c" "0 \<le> a" "fl a = a" "fl (a + c) = a + c"
  shows "a \<le> fadd a (fmul r c)" "fadd a (fmul r c) \<le> a + c"
proof -
  note w = scaled_draw_bounds[OF assms(1-4)]
  have "fl a \<le> fl (a + fmul r c)" using assms(5) w(1) by (intro fl_mono) simp_all
  then show "a \<le> fadd a (fmul r c)" by (simp add: fadd_def assms)
  have "fl (a + fmul r c) \<le> fl (a + c)" using assms(5) w by (intro fl_mono) simp_all
  then show "fadd a (fmul r c) \<le> a + c" by (simp add: fadd_def assms)
qed

lemma transactional_time_below_seven:
  assumes "is_double r" "0 \<le> r" "r < 1"
  shows "fadd 2 (fmul r 5) < 7"
proof -
  have "r \<le> 1 - 1 / 2 ^ 53" using assms(1,3) by (rule double_below_one)
  then have "r * 5 \<le> 5 - 5 / 2 ^ 53" by simp
  moreover have "0 \<le> r * 5" using assms(2) by simp
  ultimately have "fl (r * 5) \<le> fl (5 - 5 / 2 ^ 53)" by (intro fl_mono)
  then have w: "fmul r 5 \<le> 5 - 1 / 2 ^ 50" by (simp only: fmul_def fl_near_five)
  have "0 \<le> fmul r 5" using assms(2) unfolding fmul_def by (intro fl_nonneg) simp
  then have "fl (2 + fmul r 5) \<le> fl (7 - 1 / 2 ^ 50)" using w by (intro fl_mono) simp_all
  then have "fadd 2 (fmul r 5) \<le> 7 - 1 / 2 ^ 50" by (simp only: fadd_def fl_near_seven)
  then show ?thesis by simp
qed

subsection \<open>The simulator\<close>

lemma runQuery_isAnalytical_spec:
  "runQuery_isAnalytical rt sqlText \<longleftrightarrow> classify_spec rt sqlText = TiFlash"
  by (auto simp: runQuery_isAnalytical_def classify_spec_def spec_keywords_def
      includes_str_sublist Let_def)

lemma classify_spec_cases:
  "classify_spec rt sqlText = (if runQuery_isAnalytical rt sqlText then TiFlash else TiKV)"
  by (cases "classify_spec rt sqlText") (simp_all add: runQuery_isAnalytical_spec)

lemma rows_from_length:
  "length (fst (rows_from a rand now_iso n i k)) = n - i"
proof (induction a rand now_iso n i k rule: rows_from.induct)
  case (1 a rand now_iso n i k)
  show ?case
  proof (cases "i < n")
    case True
    obtain row k' where row: "make_row a rand now_iso i k = (row, k')"
      by (cases "make_row a rand now_iso i k")
    have "length (fst (rows_from a rand now_iso n (Suc i) k')) = n - Suc i"
      using 1[OF True row[symmetric] refl] .
    with True row show ?thesis
      by (subst rows_from.simps) (simp add: split_def Let_def)
  next
    case False
    then show ?thesis by (subst rows_from.simps) simp
  qed
qed

lemma runQuery_rows:
  "rows (resolved (runQuery rt rand now_iso k sqlText)) =
     JArr (fst (rows_from (runQuery_isAnalytical rt sqlText) rand now_iso
                  (if runQuery_isAnalytical rt sqlText then 5 else 10) 0 (k + 1)))"
  by (simp add: runQuery_def Let_def split_def)

lemma runQuery_fields:
  "error (resolved (runQuery rt rand now_iso k sqlText)) = None"
  "isMPP (resolved (runQuery rt rand now_iso k sqlText)) = runQuery_isAnalytical rt sqlText"
  "engine (resolved (runQuery rt rand now_iso k sqlText)) =
     (if runQuery_isAnalytical rt sqlText then TiFlash else TiKV)"
  "sql (resolved (runQuery rt rand now_iso k sqlText)) = sqlText"
  "columns (resolved (runQuery rt rand now_iso k sqlText)) =
     (if runQuery_isAnalytical rt sqlText
      then [JStr (utf16 ''category''), JStr (utf16 ''total_sales''), JStr (utf16 ''avg_price''), JStr (utf16 ''order_count'')]
      else [JStr (utf16 ''id''), JStr (utf16 ''user_id''), JStr (utf16 ''amount''), JStr (utf16 ''status''), JStr (utf16 ''created_at'')])"
  by (simp_all add: runQuery_def Let_def split_def)

text \<open>
  Claim C4. For every runtime and every statement, the simulator classifies the statement
  as the analytical engine exactly when its uppercased text contains \<open>GROUP BY\<close>,
  \<open>JOIN\<close>, \<open>SUM(\<close> or \<open>COUNT(\<close>, and as the transactional engine otherwise. Nothing but
  the uppercased text is looked at: two statements with the same uppercased text are
  classified alike, and no quote or comment syntax is recognised. On ASCII text, where
  uppercasing is fixed by the standard, the classification is the search for the four
  keywords with the letters \<open>a\<close> to \<open>z\<close> read as \<open>A\<close> to \<open>Z\<close>, so two ASCII statements
  that differ only in the case of letters are classified alike.
\<close>

theorem C4_simulator_classification:
  "engine (resolved (runQuery rt rand now_iso k sqlText)) = classify_spec rt sqlText \<and>
   (toUpperCase rt a = toUpperCase rt b \<longrightarrow>
      engine (resolved (runQuery rt rand now_iso k a)) =
      engine (resolved (runQuery rt rand now_iso k b))) \<and>
   (upper_on_ascii rt \<and> is_ascii sqlText \<longrightarrow>
      engine (resolved (runQuery rt rand now_iso k sqlText)) =
        (if list_ex (\<lambda>kw. sublist kw (map ascii_upper_unit sqlText)) spec_keywords
         then TiFlash else TiKV)) \<and>
   (upper_on_ascii rt \<and> is_ascii a \<and> is_ascii b \<and>
    map ascii_upper_unit a = map ascii_upper_unit b \<longrightarrow>
      engine (resolved (runQuery rt rand now_iso k a)) =
      engine (resolved (runQuery rt rand now_iso k b)))"
proof -
  have spec: "\<And>s. engine (resolved (runQuery rt rand now_iso k s)) = classify_spec rt s"
    by (simp add: runQuery_fields classify_spec_cases)
  have same: "classify_spec rt a = classify_spec rt b" if "toUpperCase rt a = toUpperCase rt b"
    using that by (simp add: classify_spec_def)
  have ascii: "toUpperCase rt s = map ascii_upper_unit s" if "upper_on_ascii rt" "is_ascii s" for s
    using that by (simp add: upper_on_ascii_def)
  have "classify_spec rt sqlText =
      (if list_ex (\<lambda>kw. sublist kw (map ascii_upper_unit sqlText)) spec_keywords
       then TiFlash else TiKV)" if "upper_on_ascii rt" "is_ascii sqlText"
    using ascii[OF that] by (simp add: classify_spec_def)
  moreover have "classify_spec rt a = classify_spec rt b"
    if "upper_on_ascii rt" "is_ascii a" "is_ascii b"
      "map ascii_upper_unit a = map ascii_upper_unit b"
    using that ascii[of a] ascii[of b] by (intro same) simp
  ultimately show ?thesis using same by (simp add: spec)
qed

text \<open>
  At the ASCII runtime: a lower-case aggregate whose keyword stands inside a string
  literal, and two spellings of one join. At the runtime that also maps the sharp s: a
  statement that holds no keyword before uppercasing and \<open>SUM(\<close> after it.
\<close>

theorem C4_witness:
  "engine (resolved (runQuery test_runtime (\<lambda>n. 0) (\<lambda>i. utf16 ''2024-01-01T00:00:00.000Z'') 0
             (utf16 ''select 1 where note = \"count(*)\"''))) = TiFlash \<and>
   upper_on_ascii test_runtime \<and>
   is_ascii (utf16 ''select * from a Join b'') \<and> is_ascii (utf16 ''SELECT * FROM A JOIN B'') \<and>
   map ascii_upper_unit (utf16 ''select * from a Join b'') =
     map ascii_upper_unit (utf16 ''SELECT * FROM A JOIN B'') \<and>
   engine (resolved (runQuery test_runtime (\<lambda>n. 0) (\<lambda>i. utf16 ''2024-01-01T00:00:00.000Z'') 0
             (utf16 ''select * from a Join b''))) =
   engine (resolved (runQuery test_runtime (\<lambda>n. 0) (\<lambda>i. utf16 ''2024-01-01T00:00:00.000Z'') 0
             (utf16 ''SELECT * FROM A JOIN B''))) \<and>
   engine (resolved (runQuery sharp_s_runtime (\<lambda>n. 0) (\<lambda>i. utf16 ''2024-01-01T00:00:00.000Z'') 0
             (utf16 ''select '' @ [0xDF] @ utf16 ''um(x) from t''))) = TiFlash"
proof -
  have asc: "is_ascii (utf16 ''select * from a Join b'')" "is_ascii (utf16 ''SELECT * FROM A JOIN B'')"
    "is_ascii (utf16 ''select 1 where note = \"count(*)\"'')"
    by (simp_all add: is_ascii_def utf16_def)
  have up: "map ascii_upper_unit (utf16 ''select * from a Join b'') =
     map ascii_upper_unit (utf16 ''SELECT * FROM A JOIN B'')"
    by (simp add: utf16_def ascii_upper_unit_def)
  have cls: "classify_spec test_runtime (utf16 ''select 1 where note = \"count(*)\"'') = TiFlash"
    by (simp add: classify_spec_def spec_keywords_def includes_str_sublist [symmetric] upper_eval)
  have sharp: "classify_spec sharp_s_runtime
      (utf16 ''select '' @ [0xDF] @ utf16 ''um(x) from t'') = TiFlash"
    by (simp add: classify_spec_def spec_keywords_def includes_str_sublist [symmetric]
        sharp_s_runtime_def upper_unit_sharp_s_def utf16_def ascii_upper_unit_def)
  show ?thesis
    using asc up cls sharp test_runtime_on_ascii
      C4_simulator_classification [of test_runtime "\<lambda>n. 0"
        "\<lambda>i. utf16 ''2024-01-01T00:00:00.000Z''" 0
        "utf16 ''select 1 where note = \"count(*)\"''" "utf16 ''select * from a Join b''"
        "utf16 ''SELECT * FROM A JOIN B''"]
      C4_simulator_classification [of sharp_s_runtime "\<lambda>n. 0"
        "\<lambda>i. utf16 ''2024-01-01T00:00:00.000Z''" 0
        "utf16 ''select '' @ [0xDF] @ utf16 ''um(x) from t''"]
    by simp
qed

text \<open>
  Claim C5. For every statement the simulator resolves with a result that has no error.
  If the statement classifies as analytical, the result has exactly 5 rows, the columns
  \<open>category\<close>, \<open>total_sales\<close>, \<open>avg_price\<close>, \<open>order_count\<close>, engine TiFlash and
  \<open>isMPP\<close> true; if it classifies as transactional, exactly 10 rows, the columns \<open>id\<close>,
  \<open>user_id\<close>, \<open>amount\<close>, \<open>status\<close>, \<open>created_at\<close> and \<open>isMPP\<close> false.
\<close>

theorem C5_simulate_shape:
  "error (resolved (runQuery rt rand now_iso k sqlText)) = None \<and>
   (classify_spec rt sqlText = TiFlash \<longrightarrow>
      (\<exists>rs. rows (resolved (runQuery rt rand now_iso k sqlText)) = JArr rs \<and> length rs = 5) \<and>
      columns (resolved (runQuery rt rand now_iso k sqlText)) =
        [JStr (utf16 ''category''), JStr (utf16 ''total_sales''), JStr (utf16 ''avg_price''), JStr (utf16 ''order_count'')] \<and>
      engine (resolved (runQuery rt rand now_iso k sqlText)) = TiFlash \<and>
      isMPP (resolved (runQuery rt rand now_iso k sqlText))) \<and>
   (classify_spec rt sqlText = TiKV \<longrightarrow>
      (\<exists>rs. rows (resolved (runQuery rt rand now_iso k sqlText)) = JArr rs \<and> length rs = 10) \<and>
      columns (resolved (runQuery rt rand now_iso k sqlText)) =
        [JStr (utf16 ''id''), JStr (utf16 ''user_id''), JStr (utf16 ''amount''), JStr (utf16 ''status''), JStr (utf16 ''created_at'')] \<and>
      \<not> isMPP (resolved (runQuery rt rand now_iso k sqlText)))"
proof (cases "runQuery_isAnalytical rt sqlText")
  case True
  then show ?thesis
    by (simp add: classify_spec_cases runQuery_fields runQuery_rows rows_from_length)
next
  case False
  then show ?thesis
    by (simp add: classify_spec_cases runQuery_fields runQuery_rows rows_from_length)
qed

text \<open>
  At the aggregate query and the plain query of the specification's end-to-end scenarios,
  and at a statement whose keyword \<open>SUM(\<close> only appears by uppercasing a sharp s.
\<close>

theorem C5_witness:
  "classify_spec test_runtime (utf16 ''SELECT category, SUM(amount) FROM orders GROUP BY category'') = TiFlash \<and>
   (\<exists>rs. rows (resolved (runQuery test_runtime (\<lambda>n. 1 / 2) (\<lambda>i. utf16 ''2024-01-01T00:00:00.000Z'') 0
                  (utf16 ''SELECT category, SUM(amount) FROM orders GROUP BY category''))) = JArr rs \<and>
         length rs = 5) \<and>
   isMPP (resolved (runQuery test_runtime (\<lambda>n. 1 / 2) (\<lambda>i. utf16 ''2024-01-01T00:00:00.000Z'') 0
            (utf16 ''SELECT category, SUM(amount) FROM orders GROUP BY category''))) \<and>
   classify_spec test_runtime (utf16 ''SELECT * FROM orders LIMIT 10'') = TiKV \<and>
   (\<exists>rs. rows (resolved (runQuery test_runtime (\<lambda>n. 1 / 2) (\<lambda>i. utf16 ''2024-01-01T00:00:00.000Z'') 0
                  (utf16 ''SELECT * FROM orders LIMIT 10''))) = JArr rs \<and>
         length rs = 10) \<and>
   \<not> isMPP (resolved (runQuery test_runtime (\<lambda>n. 1 / 2) (\<lambda>i. utf16 ''2024-01-01T00:00:00.000Z'') 0
              (utf16 ''SELECT * FROM orders LIMIT 10''))) \<and>
   classify_spec sharp_s_runtime (utf16 ''select '' @ [0xDF] @ utf16 ''um(x) from t'') = TiFlash \<and>
   (\<exists>rs. rows (resolved (runQuery sharp_s_runtime (\<lambda>n. 1 / 2)
                  (\<lambda>i. utf16 ''2024-01-01T00:00:00.000Z'') 0
                  (utf16 ''select '' @ [0xDF] @ utf16 ''um(x) from t''))) = JArr rs \<and>
         length rs = 5) \<and>
   isMPP (resolved (runQuery sharp_s_runtime (\<lambda>n. 1 / 2) (\<lambda>i. utf16 ''2024-01-01T00:00:00.000Z'') 0
            (utf16 ''select '' @ [0xDF] @ utf16 ''um(x) from t'')))"
proof -
  have a: "classify_spec test_runtime (utf16 ''SELECT category, SUM(amount) FROM orders GROUP BY category'') = TiFlash"
    by (simp add: classify_spec_def spec_keywords_def includes_str_sublist [symmetric] upper_eval)
  have t: "classify_spec test_runtime (utf16 ''SELECT * FROM orders LIMIT 10'') = TiKV"
    by (simp add: classify_spec_def spec_keywords_def includes_str_sublist [symmetric] upper_eval)
  have s: "classify_spec sharp_s_runtime
      (utf16 ''select '' @ [0xDF] @ utf16 ''um(x) from t'') = TiFlash"
    by (simp add: classify_spec_def spec_keywords_def includes_str_sublist [symmetric]
        sharp_s_runtime_def upper_unit_sharp_s_def utf16_def ascii_upper_unit_def)
  show ?thesis
    using a t s
      C5_simulate_shape [of test_runtime "\<lambda>n. 1 / 2" "\<lambda>i. utf16 ''2024-01-01T00:00:00.000Z''" 0
        "utf16 ''SELECT category, SUM(amount) FROM orders GROUP BY category''"]
      C5_simulate_shape [of test_runtime "\<lambda>n. 1 / 2" "\<lambda>i. utf16 ''2024-01-01T00:00:00.000Z''" 0
        "utf16 ''SELECT * FROM orders LIMIT 10''"]
      C5_simulate_shape [of sharp_s_runtime "\<lambda>n. 1 / 2"
        "\<lambda>i. utf16 ''2024-01-01T00:00:00.000Z''" 0
        "utf16 ''select '' @ [0xDF] @ utf16 ''um(x) from t''"]
    by simp
qed

text \<open>The loop of \<open>generateRealtimePerformance\<close>, unrolled: iteration \<open>j\<close> has loop
  variable \<open>10 - j\<close> and draws at \<open>k + 2 * j\<close>.\<close>

lemma upt_11: "[0..<11] = [0,1,2,3,4,5,6,7,8,9,10]"
  by (simp add: upt_rec)

lemma perf_points:
  "generateRealtimePerformance rand fmt now k =
     (map (\<lambda>j. metric_point rand fmt now (10 - int j) (k + 2 * j)) [0..<11], k + 22)"
  by (simp add: generateRealtimePerformance_def perf_loop.simps upt_11 eval_nat_numeral)

lemma metric_point_bounds:
  assumes "random_source rand"
  shows "800 \<le> oltp (metric_point rand fmt now i k)"
    "oltp (metric_point rand fmt now i k) \<le> 1200"
    "10 \<le> olap (metric_point rand fmt now i k)"
    "olap (metric_point rand fmt now i k) \<le> 15"
proof -
  from assms have r: "0 \<le> rand k" "rand k < 1" "0 \<le> rand (k + 1)" "rand (k + 1) < 1"
    by (simp_all add: random_source_def)
  show "800 \<le> oltp (metric_point rand fmt now i k)"
    using offset_draw_bounds(1)[OF r(1,2), of 400 800] by (simp add: metric_point_def fl_consts)
  show "oltp (metric_point rand fmt now i k) \<le> 1200"
    using offset_draw_bounds(2)[OF r(1,2), of 400 800] by (simp add: metric_point_def fl_consts)
  show "10 \<le> olap (metric_point rand fmt now i k)"
    using offset_draw_bounds(1)[OF r(3,4), of 5 10] by (simp add: metric_point_def fl_consts)
  show "olap (metric_point rand fmt now i k) \<le> 15"
    using offset_draw_bounds(2)[OF r(3,4), of 5 10] by (simp add: metric_point_def fl_consts)
qed

text \<open>
  Claim C10, amended. Every call of \<open>generateRealtimePerformance\<close> returns exactly 11
  points, in chronological order: the times are those of 10, 9, ..., 1, 0 seconds before
  \<open>now\<close>, one second apart. Each \<open>oltp\<close> lies in the closed interval from 800 to 1200
  and each \<open>olap\<close> in the closed interval from 10 to 15: the sums are rounded to the
  nearest double, and the upper ends are reached.
\<close>

theorem C10_realtime_performance:
  "random_source rand \<Longrightarrow>
   length (fst (generateRealtimePerformance rand fmt now k)) = 11 \<and>
   map time (fst (generateRealtimePerformance rand fmt now k)) =
     map (\<lambda>i. fmt (now - i * 1000)) [10, 9, 8, 7, 6, 5, 4, 3, 2, 1, 0] \<and>
   (\<forall>p \<in> set (fst (generateRealtimePerformance rand fmt now k)).
      800 \<le> oltp p \<and> oltp p \<le> 1200 \<and> 10 \<le> olap p \<and> olap p \<le> 15)"
proof -
  assume r: "random_source rand"
  have len: "length (fst (generateRealtimePerformance rand fmt now k)) = 11"
    by (simp add: perf_points)
  have times: "map time (fst (generateRealtimePerformance rand fmt now k)) =
     map (\<lambda>i. fmt (now - i * 1000)) [10, 9, 8, 7, 6, 5, 4, 3, 2, 1, 0]"
    by (simp add: perf_points upt_11 metric_point_def)
  have "800 \<le> oltp p \<and> oltp p \<le> 1200 \<and> 10 \<le> olap p \<and> olap p \<le> 15"
    if "p \<in> set (fst (generateRealtimePerformance rand fmt now k))" for p
  proof -
    from that obtain j where "p = metric_point rand fmt now (10 - int j) (k + 2 * j)"
      by (auto simp: perf_points)
    with metric_point_bounds[OF r] show ?thesis by simp
  qed
  with len times show ?thesis by blast
qed

lemma random_high_source: "random_source random_high"
proof -
  have "is_double (1 - 1 / 2 ^ 52)" by code_simp
  then show ?thesis by (simp add: random_source_def random_high_def)
qed

lemma random_half_source: "random_source random_half"
proof -
  have "is_double (1 / 2)" by code_simp
  then show ?thesis by (simp add: random_source_def random_half_def)
qed

lemma max_draws: "fadd 800 (fmul (1 - 1 / 2 ^ 52) 400) = 1200"
  "fadd 10 (fmul (1 - 1 / 2 ^ 52) 5) = 15" "fadd 45 (fmul (1 - 1 / 2 ^ 52) 20) = 65"
  by code_simp+

text \<open>
  Claim C10 as stated fails: when \<open>Math.random()\<close> returns \<open>1 - 2^-52\<close>, the product
  \<open>r * 400\<close> rounds to \<open>400 - 2^-43\<close> and \<open>800 + r * 400\<close> to 1200; \<open>r * 5\<close> rounds
  to \<open>5 - 2^-50\<close> and \<open>10 + r * 5\<close>, at a tie, to 15.
\<close>

theorem C10_counterexample:
  "random_source random_high \<and>
   oltp (hd (fst (generateRealtimePerformance random_high seconds_text 1700000000000 0))) = 1200 \<and>
   olap (hd (fst (generateRealtimePerformance random_high seconds_text 1700000000000 0))) = 15 \<and>
   \<not> (\<forall>p \<in> set (fst (generateRealtimePerformance random_high seconds_text 1700000000000 0)).
         oltp p < 1200 \<and> olap p < 15)"
proof -
  have o: "oltp (hd (fst (generateRealtimePerformance random_high seconds_text 1700000000000 0))) = 1200"
    and a: "olap (hd (fst (generateRealtimePerformance random_high seconds_text 1700000000000 0))) = 15"
    using max_draws(1,2) by (simp_all add: perf_points upt_11 metric_point_def random_high_def)
  have "hd (fst (generateRealtimePerformance random_high seconds_text 1700000000000 0)) \<in>
      set (fst (generateRealtimePerformance random_high seconds_text 1700000000000 0))"
    by (simp add: perf_points upt_11)
  with o have "\<not> (\<forall>p \<in> set (fst (generateRealtimePerformance random_high seconds_text 1700000000000 0)).
         oltp p < 1200 \<and> olap p < 15)"
    by force
  with o a random_high_source show ?thesis by simp
qed

lemma runQuery_time:
  "\<exists>k'. executionTimeMs (resolved (runQuery rt rand now_iso k sqlText)) =
     (if runQuery_isAnalytical rt sqlText then fadd 45 (fmul (rand k') 20)
      else fadd 2 (fmul (rand k') 5))"
  by (auto simp: runQuery_def Let_def split_def)

text \<open>
  Claim C9, amended. The execution time reported by the simulator lies in the closed
  interval from 45 to 65 when the statement classifies as analytical, and in the half-open
  interval from 2 to 7 when it classifies as transactional. The two ranges are disjoint:
  the engine is TiKV exactly when the time is below 7.
\<close>

theorem C9_execution_time_ranges:
  "random_source rand \<Longrightarrow>
   (classify_spec rt sqlText = TiFlash \<longrightarrow>
      45 \<le> executionTimeMs (resolved (runQuery rt rand now_iso k sqlText)) \<and>
      executionTimeMs (resolved (runQuery rt rand now_iso k sqlText)) \<le> 65) \<and>
   (classify_spec rt sqlText = TiKV \<longrightarrow>
      2 \<le> executionTimeMs (resolved (runQuery rt rand now_iso k sqlText)) \<and>
      executionTimeMs (resolved (runQuery rt rand now_iso k sqlText)) < 7) \<and>
   engine (resolved (runQuery rt rand now_iso k sqlText)) =
     (if executionTimeMs (resolved (runQuery rt rand now_iso k sqlText)) < 7 then TiKV else TiFlash)"
proof -
  assume r: "random_source rand"
  obtain k' where t: "executionTimeMs (resolved (runQuery rt rand now_iso k sqlText)) =
     (if runQuery_isAnalytical rt sqlText then fadd 45 (fmul (rand k') 20)
      else fadd 2 (fmul (rand k') 5))"
    using runQuery_time by blast
  from r have d: "is_double (rand k')" "0 \<le> rand k'" "rand k' < 1"
    by (simp_all add: random_source_def)
  show ?thesis
  proof (cases "runQuery_isAnalytical rt sqlText")
    case True
    have "45 \<le> fadd 45 (fmul (rand k') 20)" "fadd 45 (fmul (rand k') 20) \<le> 65"
      using offset_draw_bounds[OF d(2,3), of 20 45] by (simp_all add: fl_consts)
    with True t show ?thesis
      by (simp add: classify_spec_cases runQuery_fields)
  next
    case False
    have "2 \<le> fadd 2 (fmul (rand k') 5)"
      using offset_draw_bounds(1)[OF d(2,3), of 5 2] by (simp add: fl_consts)
    moreover have "fadd 2 (fmul (rand k') 5) < 7"
      using d by (rule transactional_time_below_seven)
    ultimately show ?thesis using False t
      by (simp add: classify_spec_cases runQuery_fields)
  qed
qed

lemma count_is_analytical: "classify_spec test_runtime (utf16 ''SELECT COUNT(*) FROM orders'') = TiFlash"
  by (simp add: classify_spec_def spec_keywords_def includes_str_sublist [symmetric] upper_eval)

lemma limit_is_transactional: "classify_spec test_runtime (utf16 ''SELECT * FROM orders LIMIT 10'') = TiKV"
  by (simp add: classify_spec_def spec_keywords_def includes_str_sublist [symmetric] upper_eval)

text \<open>
  Claim C9 as stated fails: when \<open>Math.random()\<close> returns \<open>1 - 2^-52\<close>, the product
  \<open>r * 20\<close> rounds to \<open>20 - 2^-48\<close> and the sum \<open>45 + r * 20\<close> rounds to 65, which is
  not below 65.
\<close>

theorem C9_counterexample:
  "random_source random_high \<and>
   classify_spec test_runtime (utf16 ''SELECT COUNT(*) FROM orders'') = TiFlash \<and>
   executionTimeMs (resolved (runQuery test_runtime random_high (\<lambda>i. utf16 ''2024-01-01T00:00:00.000Z'') 0
      (utf16 ''SELECT COUNT(*) FROM orders''))) = 65 \<and>
   \<not> executionTimeMs (resolved (runQuery test_runtime random_high (\<lambda>i. utf16 ''2024-01-01T00:00:00.000Z'') 0
      (utf16 ''SELECT COUNT(*) FROM orders''))) < 65"
proof -
  have a: "runQuery_isAnalytical test_runtime (utf16 ''SELECT COUNT(*) FROM orders'')"
    using count_is_analytical by (simp add: runQuery_isAnalytical_spec)
  obtain k' where "executionTimeMs (resolved (runQuery test_runtime random_high
        (\<lambda>i. utf16 ''2024-01-01T00:00:00.000Z'') 0 (utf16 ''SELECT COUNT(*) FROM orders''))) =
      fadd 45 (fmul (random_high k') 20)"
    using runQuery_time[of test_runtime random_high "\<lambda>i. utf16 ''2024-01-01T00:00:00.000Z''" 0
        "utf16 ''SELECT COUNT(*) FROM orders''"] a by auto
  then have "executionTimeMs (resolved (runQuery test_runtime random_high
        (\<lambda>i. utf16 ''2024-01-01T00:00:00.000Z'') 0 (utf16 ''SELECT COUNT(*) FROM orders''))) = 65"
    using max_draws(3) by (simp add: random_high_def)
  with random_high_source count_is_analytical show ?thesis by simp
qed

text \<open>At a source that returns one half, for an aggregate and for a plain query.\<close>

theorem C9_witness:
  "random_source random_half \<and>
   classify_spec test_runtime (utf16 ''SELECT COUNT(*) FROM orders'') = TiFlash \<and>
   45 \<le> executionTimeMs (resolved (runQuery test_runtime random_half (\<lambda>i. utf16 ''2024-01-01T00:00:00.000Z'') 0
           (utf16 ''SELECT COUNT(*) FROM orders''))) \<and>
   executionTimeMs (resolved (runQuery test_runtime random_half (\<lambda>i. utf16 ''2024-01-01T00:00:00.000Z'') 0
      (utf16 ''SELECT COUNT(*) FROM orders''))) \<le> 65 \<and>
   classify_spec test_runtime (utf16 ''SELECT * FROM orders LIMIT 10'') = TiKV \<and>
   2 \<le> executionTimeMs (resolved (runQuery test_runtime random_half (\<lambda>i. utf16 ''2024-01-01T00:00:00.000Z'') 0
          (utf16 ''SELECT * FROM orders LIMIT 10''))) \<and>
   executionTimeMs (resolved (runQuery test_runtime random_half (\<lambda>i. utf16 ''2024-01-01T00:00:00.000Z'') 0
      (utf16 ''SELECT * FROM orders LIMIT 10''))) < 7"
  using random_half_source count_is_analytical limit_is_transactional
    C9_execution_time_ranges [OF random_half_source, of test_runtime
      "utf16 ''SELECT COUNT(*) FROM orders''"
      "\<lambda>i. utf16 ''2024-01-01T00:00:00.000Z''" 0]
    C9_execution_time_ranges [OF random_half_source, of test_runtime
      "utf16 ''SELECT * FROM orders LIMIT 10''"
      "\<lambda>i. utf16 ''2024-01-01T00:00:00.000Z''" 0]
  by simp

text \<open>At a source that returns one half.\<close>

theorem C10_witness:
  "random_source random_half \<and>
   length (fst (generateRealtimePerformance random_half seconds_text 1700000000000 0)) = 11 \<and>
   map time (fst (generateRealtimePerformance random_half seconds_text 1700000000000 0)) =
     map (\<lambda>i. seconds_text (1700000000000 - i * 1000)) [10, 9, 8, 7, 6, 5, 4, 3, 2, 1, 0] \<and>
   800 \<le> oltp (hd (fst (generateRealtimePerformance random_half seconds_text 1700000000000 0))) \<and>
   oltp (hd (fst (generateRealtimePerformance random_half seconds_text 1700000000000 0))) \<le> 1200"
proof -
  have "hd (fst (generateRealtimePerformance random_half seconds_text 1700000000000 0)) \<in>
      set (fst (generateRealtimePerformance random_half seconds_text 1700000000000 0))"
    by (simp add: perf_points upt_11)
  with random_half_source
    C10_realtime_performance [OF random_half_source, of seconds_text 1700000000000 0]
  show ?thesis by blast
qed

subsection \<open>The live query client\<close>

lemma try_block_Inr:
  "try_block rt fetch config sqlText startTime endTime = Inr r \<Longrightarrow>
     error r = None \<and> isMPP r = executeLiveQuery_isAnalytical rt sqlText \<and>
     engine r = (if executeLiveQuery_isAnalytical rt sqlText then TiFlash else TiKV) \<and>
     sql r = sqlText \<and> executionTimeMs r = fsub endTime startTime"
  by (auto simp: try_block_def try_bind_def Let_def split: sum.splits if_splits)

lemma executeLiveQuery_settled:
  assumes "endpoint config \<noteq> []" "publicKey config \<noteq> []" "privateKey config \<noteq> []"
  shows "settled (executeLiveQuery rt fetch config sqlText startTime endTime) =
           (case try_block rt fetch config sqlText startTime endTime of
              Inr r \<Rightarrow> Inr r
            | Inl err \<Rightarrow> Inr (catch_block sqlText err))"
    and "issued (executeLiveQuery rt fetch config sqlText startTime endTime) =
           (if latin1 (btoa_input config) then [the_request config sqlText] else [])"
  using assms by (simp_all add: executeLiveQuery_def)

lemma executeLiveQuery_guard:
  assumes "endpoint config = [] \<or> publicKey config = [] \<or> privateKey config = []"
  shows "executeLiveQuery rt fetch config sqlText startTime endTime =
           \<lparr>issued = [], settled = Inl (Error (utf16 ''Missing connection credentials''))\<rparr>"
  using assms by (simp add: executeLiveQuery_def)

lemma settled_cases:
  assumes "settled (executeLiveQuery rt fetch config sqlText startTime endTime) = Inr r"
  shows "(\<exists>e. try_block rt fetch config sqlText startTime endTime = Inl e \<and>
              r = catch_block sqlText e) \<or>
         try_block rt fetch config sqlText startTime endTime = Inr r"
proof (cases "endpoint config = [] \<or> publicKey config = [] \<or> privateKey config = []")
  case True
  with assms show ?thesis by (simp add: executeLiveQuery_guard)
next
  case False
  with assms show ?thesis
    by (cases "try_block rt fetch config sqlText startTime endTime")
       (auto simp: executeLiveQuery_settled)
qed

lemma live_isMPP:
  assumes "settled (executeLiveQuery rt fetch config sqlText startTime endTime) = Inr r"
  shows "isMPP r = (engine r = TiFlash)"
  using settled_cases[OF assms] try_block_Inr[of rt fetch config sqlText startTime endTime r]
  by (auto simp: catch_block_def)

lemma live_error_shape:
  assumes "settled (executeLiveQuery rt fetch config sqlText startTime endTime) = Inr r"
    and "error r \<noteq> None"
  shows "columns r = [] \<and> rows r = JArr [] \<and> executionTimeMs r = 0"
  using settled_cases[OF assms(1)] assms(2)
    try_block_Inr[of rt fetch config sqlText startTime endTime r]
  by (auto simp: catch_block_def)

text \<open>
  Claim C8. In every result of the simulator and of the live query client, on the success
  path and on the failure path, and in every result \<open>handleRunQuery\<close> displays, \<open>isMPP\<close>
  is true exactly when the engine is TiFlash.
\<close>

theorem C8_isMPP_engine:
  "isMPP (resolved (runQuery rt rand now_iso k sqlText)) =
     (engine (resolved (runQuery rt rand now_iso k sqlText)) = TiFlash) \<and>
   (settled (executeLiveQuery rt fetch config sqlText startTime endTime) = Inr r \<longrightarrow>
      isMPP r = (engine r = TiFlash)) \<and>
   isMPP (handleRunQuery rt fetch rand now_iso k config sqlText startTime endTime) =
     (engine (handleRunQuery rt fetch rand now_iso k config sqlText startTime endTime) = TiFlash)"
proof -
  have sim: "isMPP (resolved (runQuery rt rand now_iso k sqlText)) =
     (engine (resolved (runQuery rt rand now_iso k sqlText)) = TiFlash)"
    by (simp add: runQuery_fields)
  have ui: "isMPP (handleRunQuery rt fetch rand now_iso k config sqlText startTime endTime) =
     (engine (handleRunQuery rt fetch rand now_iso k config sqlText startTime endTime) = TiFlash)"
    using sim live_isMPP[of rt fetch config sqlText startTime endTime]
    by (auto simp: handleRunQuery_def split: sum.splits)
  from sim ui live_isMPP[of rt fetch config sqlText startTime endTime r] show ?thesis
    by blast
qed

lemma try_block_fetch_rows:
  "latin1 (btoa_input config) \<Longrightarrow>
   try_block rt fetch_rows config sqlText startTime endTime =
     Inr \<lparr>columns = [JStr (utf16 ''total'')],
          rows = JArr [JObj [(utf16 ''total'', JNum 42)]],
          executionTimeMs = fsub endTime startTime,
          engine = (if executeLiveQuery_isAnalytical rt sqlText then TiFlash else TiKV),
          isMPP = executeLiveQuery_isAnalytical rt sqlText,
          sql = sqlText,
          error = None\<rparr>"
  by (simp add: try_block_def fetch_rows_def try_bind_def Let_def)

lemma test_config_ok:
  "endpoint test_config \<noteq> []" "publicKey test_config \<noteq> []" "privateKey test_config \<noteq> []"
  by (simp_all add: test_config_def)

lemma test_config_latin1: "latin1 (btoa_input test_config)"
proof -
  have "btoa_input test_config = utf16 ''PUBLIC:PRIVATE''"
    by (simp add: btoa_input_def test_config_def utf16_def)
  then show ?thesis by (simp only: utf16_latin1)
qed

lemma join_is_analytical: "executeLiveQuery_isAnalytical test_runtime (utf16 ''SELECT * FROM a JOIN b ON a.id = b.id'')"
  by (simp add: executeLiveQuery_isAnalytical_def upper_eval)

text \<open>At a join answered by the gateway: a resolved live result on TiFlash.\<close>

theorem C8_witness:
  "\<exists>r. settled (executeLiveQuery test_runtime fetch_rows test_config
           (utf16 ''SELECT * FROM a JOIN b ON a.id = b.id'') 100 130) = Inr r \<and>
       isMPP r \<and> engine r = TiFlash"
proof -
  have s: "settled (executeLiveQuery test_runtime fetch_rows test_config
      (utf16 ''SELECT * FROM a JOIN b ON a.id = b.id'') 100 130) =
     Inr \<lparr>columns = [JStr (utf16 ''total'')],
          rows = JArr [JObj [(utf16 ''total'', JNum 42)]],
          executionTimeMs = fsub 130 100,
          engine = TiFlash, isMPP = True,
          sql = utf16 ''SELECT * FROM a JOIN b ON a.id = b.id'',
          error = None\<rparr>"
    using join_is_analytical
    by (simp add: executeLiveQuery_settled test_config_ok test_config_latin1
        try_block_fetch_rows)
  show ?thesis
    using s C8_isMPP_engine [of test_runtime "\<lambda>n. 0" "\<lambda>i. []" 0
        "utf16 ''SELECT * FROM a JOIN b ON a.id = b.id''" fetch_rows test_config 100 130]
    by simp
qed

text \<open>
  Claim C7. The simulator never sets \<open>error\<close>. A result of the live query client whose
  \<open>error\<close> is set has empty columns, empty rows and execution time 0, and so has any
  result \<open>handleRunQuery\<close> displays.
\<close>

theorem C7_error_shape:
  "error (resolved (runQuery rt rand now_iso k sqlText)) = None \<and>
   (settled (executeLiveQuery rt fetch config sqlText startTime endTime) = Inr r \<and>
    error r \<noteq> None \<longrightarrow>
      columns r = [] \<and> rows r = JArr [] \<and> executionTimeMs r = 0) \<and>
   (error (handleRunQuery rt fetch rand now_iso k config sqlText startTime endTime) \<noteq> None \<longrightarrow>
      columns (handleRunQuery rt fetch rand now_iso k config sqlText startTime endTime) = [] \<and>
      rows (handleRunQuery rt fetch rand now_iso k config sqlText startTime endTime) = JArr [] \<and>
      executionTimeMs (handleRunQuery rt fetch rand now_iso k config sqlText startTime endTime) = 0)"
proof -
  have sim: "error (resolved (runQuery rt rand now_iso k sqlText)) = None"
    by (simp add: runQuery_fields)
  have ui: "columns (handleRunQuery rt fetch rand now_iso k config sqlText startTime endTime) = [] \<and>
      rows (handleRunQuery rt fetch rand now_iso k config sqlText startTime endTime) = JArr [] \<and>
      executionTimeMs (handleRunQuery rt fetch rand now_iso k config sqlText startTime endTime) = 0"
    if "error (handleRunQuery rt fetch rand now_iso k config sqlText startTime endTime) \<noteq> None"
    using that sim live_error_shape[of rt fetch config sqlText startTime endTime]
    by (auto simp: handleRunQuery_def split: sum.splits if_splits)
  from sim ui live_error_shape[of rt fetch config sqlText startTime endTime r] show ?thesis
    by blast
qed

lemma try_block_fetch_offline:
  "latin1 (btoa_input config) \<Longrightarrow>
   try_block rt fetch_offline config sqlText startTime endTime =
     Inl (TypeError (utf16 ''Failed to fetch''))"
  by (simp add: try_block_def fetch_offline_def try_bind_def)



text \<open>At a transport that throws: the error is set and the rest is empty.\<close>

theorem C7_witness:
  "settled (executeLiveQuery test_runtime fetch_offline test_config (utf16 ''SELECT 1'') 100 130) =
     Inr \<lparr>columns = [], rows = JArr [], executionTimeMs = 0, engine = TiKV, isMPP = False,
          sql = utf16 ''SELECT 1'', error = Some (utf16 ''Failed to fetch'')\<rparr> \<and>
   (\<exists>r. settled (executeLiveQuery test_runtime fetch_offline test_config (utf16 ''SELECT 1'') 100 130) =
           Inr r \<and>
        error r \<noteq> None \<and> columns r = [] \<and> rows r = JArr [] \<and> executionTimeMs r = 0)"
proof -
  have s: "settled (executeLiveQuery test_runtime fetch_offline test_config (utf16 ''SELECT 1'') 100 130) =
     Inr \<lparr>columns = [], rows = JArr [], executionTimeMs = 0, engine = TiKV, isMPP = False,
          sql = utf16 ''SELECT 1'', error = Some (utf16 ''Failed to fetch'')\<rparr>"
    by (simp add: executeLiveQuery_settled test_config_ok test_config_latin1
        try_block_fetch_offline catch_block_def)
  show ?thesis
    using s C7_error_shape [of test_runtime "\<lambda>n. 0" "\<lambda>i. []" 0 "utf16 ''SELECT 1''"
        fetch_offline test_config 100 130]
    by simp
qed











lemma executeLiveQuery_isAnalytical_iff:
  "executeLiveQuery_isAnalytical rt sqlText \<longleftrightarrow>
     sublist (utf16 ''GROUP BY'') (toUpperCase rt sqlText) \<or> sublist (utf16 ''JOIN'') (toUpperCase rt sqlText)"
  by (simp add: executeLiveQuery_isAnalytical_def includes_str_sublist)

text \<open>
  Claim C1 says that the live query client classifies by the four keywords, as the
  simulator does. Its classification tests \<open>GROUP BY\<close> and \<open>JOIN\<close> only: an aggregate
  without either is resolved as TiKV by the live client, while the rule of the
  specification and the simulator give TiFlash.
\<close>

theorem C1_live_classification_differs:
  "(\<exists>r. settled (executeLiveQuery test_runtime fetch_rows test_config
            (utf16 ''SELECT SUM(amount) FROM orders'') 100 130) = Inr r \<and>
        error r = None \<and> engine r = TiKV \<and> \<not> isMPP r) \<and>
   classify_spec test_runtime (utf16 ''SELECT SUM(amount) FROM orders'') = TiFlash \<and>
   engine (resolved (runQuery test_runtime (\<lambda>n. 0) (\<lambda>i. []) 0 (utf16 ''SELECT SUM(amount) FROM orders''))) = TiFlash"
proof -
  have live: "\<not> executeLiveQuery_isAnalytical test_runtime (utf16 ''SELECT SUM(amount) FROM orders'')"
    by (simp add: executeLiveQuery_isAnalytical_def upper_eval)
  have spec: "classify_spec test_runtime (utf16 ''SELECT SUM(amount) FROM orders'') = TiFlash"
    by (simp add: classify_spec_def spec_keywords_def includes_str_sublist [symmetric] upper_eval)
  have sim: "engine (resolved (runQuery test_runtime (\<lambda>n. 0) (\<lambda>i. []) 0 (utf16 ''SELECT SUM(amount) FROM orders''))) =
      TiFlash"
    using spec by (simp add: runQuery_fields classify_spec_cases split: if_splits)
  from live spec sim show ?thesis
    by (simp add: executeLiveQuery_settled test_config_ok test_config_latin1
        try_block_fetch_rows)
qed

text \<open>
  Claim C2, amended. When \<open>endpoint\<close>, \<open>publicKey\<close> or \<open>privateKey\<close> is empty,
  \<open>executeLiveQuery\<close> issues no HTTP request and its promise rejects with the error
  \<open>Missing connection credentials\<close>: the guard stands before the \<open>try\<close>. It is the caller,
  \<open>handleRunQuery\<close>, that turns the rejection into the result with that error, empty
  columns and rows, execution time 0, engine TiKV and \<open>isMPP\<close> false.
\<close>

theorem C2_missing_credentials:
  "endpoint config = [] \<or> publicKey config = [] \<or> privateKey config = [] \<Longrightarrow>
   issued (executeLiveQuery rt fetch config sqlText startTime endTime) = [] \<and>
   settled (executeLiveQuery rt fetch config sqlText startTime endTime) =
     Inl (Error (utf16 ''Missing connection credentials'')) \<and>
   (isLive config \<longrightarrow>
      handleRunQuery rt fetch rand now_iso k config sqlText startTime endTime =
        \<lparr>columns = [], rows = JArr [], executionTimeMs = 0, engine = TiKV, isMPP = False,
         sql = sqlText, error = Some (utf16 ''Missing connection credentials'')\<rparr>)"
  by (simp add: executeLiveQuery_guard handleRunQuery_def)

text \<open>
  Claim C2 as stated fails: with an empty \<open>publicKey\<close> the call returns no result at all.
\<close>

theorem C2_counterexample:
  "settled (executeLiveQuery test_runtime fetch_rows (test_config\<lparr>publicKey := []\<rparr>)
      (utf16 ''SELECT 1'') 100 130) = Inl (Error (utf16 ''Missing connection credentials'')) \<and>
   \<not> (\<exists>r. settled (executeLiveQuery test_runtime fetch_rows (test_config\<lparr>publicKey := []\<rparr>)
             (utf16 ''SELECT 1'') 100 130) = Inr r)"
  by (simp add: executeLiveQuery_guard)

text \<open>At the configuration with an empty \<open>publicKey\<close>, in live mode.\<close>

theorem C2_witness:
  "publicKey (test_config\<lparr>publicKey := []\<rparr>) = [] \<and>
   isLive (test_config\<lparr>publicKey := []\<rparr>) \<and>
   issued (executeLiveQuery test_runtime fetch_rows (test_config\<lparr>publicKey := []\<rparr>)
      (utf16 ''SELECT 1'') 100 130) = [] \<and>
   handleRunQuery test_runtime fetch_rows (\<lambda>n. 0) (\<lambda>i. []) 0 (test_config\<lparr>publicKey := []\<rparr>)
      (utf16 ''SELECT 1'') 100 130 =
     \<lparr>columns = [], rows = JArr [], executionTimeMs = 0, engine = TiKV, isMPP = False,
      sql = utf16 ''SELECT 1'', error = Some (utf16 ''Missing connection credentials'')\<rparr>"
  using C2_missing_credentials [of "test_config\<lparr>publicKey := []\<rparr>" test_runtime fetch_rows
      "utf16 ''SELECT 1''" 100 130 "\<lambda>n. 0" "\<lambda>i. []" 0]
  by (simp add: test_config_def)

subsection \<open>The insight client\<close>

text \<open>
  Claim C3, amended. \<open>getAIInsights\<close> never raises. The text it parses is the response
  text, or \<open>{}\<close> when the response has no text or the empty text. When the transport
  throws, or the parsed text is not JSON, it returns the fixed fallback insight (severity
  \<open>low\<close>, title \<open>Monitoring Active\<close>), a constant that does not depend on the status. A
  text that parses is returned as parsed, whatever fields it has: missing fields are not
  detected. So a response without a text, or with the empty text, yields what \<open>{}\<close>
  parses to, the empty object, and not the fallback.
\<close>

theorem C3_insight_fallback:
  "(\<exists>v. getAIInsights rt generateContent JSON_parse status = Inr v) \<and>
   (\<forall>e. generateContent (prompt_of rt status) = Inl e \<longrightarrow>
      getAIInsights rt generateContent JSON_parse status = Inr fallback_insight) \<and>
   (\<forall>t e. generateContent (prompt_of rt status) = Inr (Some t) \<and> t \<noteq> [] \<and>
          JSON_parse t = Inl e \<longrightarrow>
      getAIInsights rt generateContent JSON_parse status = Inr fallback_insight) \<and>
   (\<forall>t v. generateContent (prompt_of rt status) = Inr (Some t) \<and> t \<noteq> [] \<and>
          JSON_parse t = Inr v \<longrightarrow>
      getAIInsights rt generateContent JSON_parse status = Inr v) \<and>
   (\<forall>v. (generateContent (prompt_of rt status) = Inr None \<or>
         generateContent (prompt_of rt status) = Inr (Some [])) \<and>
        JSON_parse (utf16 ''{}'') = Inr v \<longrightarrow>
      getAIInsights rt generateContent JSON_parse status = Inr v) \<and>
   (\<forall>e. (generateContent (prompt_of rt status) = Inr None \<or>
         generateContent (prompt_of rt status) = Inr (Some [])) \<and>
        JSON_parse (utf16 ''{}'') = Inl e \<longrightarrow>
      getAIInsights rt generateContent JSON_parse status = Inr fallback_insight) \<and>
   get_prop fallback_insight (utf16 ''severity'') = Inr (JStr (utf16 ''low'')) \<and>
   get_prop fallback_insight (utf16 ''title'') = Inr (JStr (utf16 ''Monitoring Active''))"
proof -
  have "\<exists>v. getAIInsights rt generateContent JSON_parse status = Inr v"
    by (simp add: getAIInsights_def split: sum.splits)
  moreover have "get_prop fallback_insight (utf16 ''severity'') = Inr (JStr (utf16 ''low''))"
    "get_prop fallback_insight (utf16 ''title'') = Inr (JStr (utf16 ''Monitoring Active''))"
    by (simp_all add: fallback_insight_def)
  moreover have "utf16 ''{}'' \<noteq> []"
    by simp
  ultimately show ?thesis
    by (auto simp: getAIInsights_def try_bind_def)
qed

text \<open>
  Claim C3 as stated fails. The JSON text \<open>{}\<close> lacks all four fields, and the client
  returns the empty object, not the fallback. The empty text is not JSON (the parser
  rejects it), and neither it nor an absent text gives the fallback: the client parses
  \<open>{}\<close> in their place.
\<close>

theorem C3_counterexample:
  "getAIInsights test_runtime generate_braces parse_empty_object test_status = Inr (JObj []) \<and>
   parse_empty_object [] = Inl (SyntaxError (utf16 ''Unexpected token'')) \<and>
   getAIInsights test_runtime generate_empty parse_empty_object test_status = Inr (JObj []) \<and>
   getAIInsights test_runtime generate_absent parse_empty_object test_status = Inr (JObj []) \<and>
   get_prop (JObj []) (utf16 ''title'') = Inr JUndefined \<and>
   Inr (JObj []) \<noteq> (Inr fallback_insight :: js_error + jsval)"
  by (simp add: getAIInsights_def try_bind_def generate_braces_def generate_empty_def
      generate_absent_def parse_empty_object_def fallback_insight_def utf16_def)

text \<open>
  At a transport that throws and at a response that is prose (the fallback), and at a
  response without a text (the empty object).
\<close>

theorem C3_witness:
  "getAIInsights test_runtime generate_offline parse_empty_object test_status =
     Inr fallback_insight \<and>
   getAIInsights test_runtime generate_prose parse_empty_object test_status =
     Inr fallback_insight \<and>
   getAIInsights test_runtime generate_absent parse_empty_object test_status = Inr (JObj [])"
  using C3_insight_fallback [of test_runtime generate_offline parse_empty_object test_status]
    C3_insight_fallback [of test_runtime generate_prose parse_empty_object test_status]
    C3_insight_fallback [of test_runtime generate_absent parse_empty_object test_status]
  by (simp add: generate_offline_def generate_prose_def generate_absent_def
      parse_empty_object_def)

end
